theory Spec2Isabelle
  imports Complex_Main
begin

section \<open>Conversation evaluation: the aggregation engine\<close>

text \<open>
  A shallow embedding of \<^verbatim>\<open>src/evaluation/engine.py\<close>, of the model manager of
  \<^verbatim>\<open>src/models/inference.py\<close> as far as the engine calls it, and of
  \<^verbatim>\<open>DataProcessor.clean_conversation_text\<close> of \<^verbatim>\<open>src/data/processor.py\<close>.

  Python floats are read as real numbers, and the results are about the arithmetic the
  code writes down; the one claim that is about the exact value of a float is settled
  on a second definition of the confidence calculator, which rounds as binary64 does. Python integers are \<open>int\<close>, a \<open>dict\<close>
  whose order matters is an association list in insertion order, and an exception is the
  left summand of a result type.
\<close>

subsection \<open>Data model\<close>

text \<open>\<^verbatim>\<open>EvaluationResult\<close> of \<^verbatim>\<open>inference.py\<close>: one judgment of one facet.\<close>

record EvaluationResult =
  facet :: string
  score :: int
  confidence :: real
  reasoning :: string

record ConfidenceMetrics =
  overall_confidence :: real
  model_confidence :: real
  consistency_score :: real
  uncertainty_estimate :: real

text \<open>The exceptions that the modelled code can raise.\<close>

datatype error =
  ZeroDivisionError
  | ValueError
  | ModelLoadError string

subsection \<open>Facet weights\<close>

definition default_weights :: "(string \<times> real) list" where
  "default_weights =
    [(''grammar'', 1.0), (''coherence'', 1.2), (''fluency'', 1.0),
     (''vocabulary_richness'', 0.8), (''clarity'', 1.3),
     (''appropriateness'', 1.5), (''relevance'', 1.4), (''politeness'', 1.1),
     (''context_understanding'', 1.3),
     (''toxicity'', 2.0), (''bias'', 1.8), (''harmful_content'', 2.0),
     (''hate_speech'', 2.0),
     (''empathy'', 1.2), (''sentiment'', 1.0), (''emotional_appropriateness'', 1.1)]"

text \<open>
  \<^verbatim>\<open>_load_facet_weights\<close>: the defaults, overridden by the \<^verbatim>\<open>facet_weights\<close> entry of
  the configuration (the argument; the empty map when the entry is absent).
\<close>

definition load_facet_weights :: "(string \<rightharpoonup> real) \<Rightarrow> (string \<rightharpoonup> real)" where
  "load_facet_weights config_weights = map_of default_weights ++ config_weights"

text \<open>\<^verbatim>\<open>self.facet_weights.get(result.facet, 1.0)\<close>\<close>

definition get_weight :: "(string \<rightharpoonup> real) \<Rightarrow> string \<Rightarrow> real" where
  "get_weight facet_weights f = (case facet_weights f of Some w \<Rightarrow> w | None \<Rightarrow> 1.0)"

subsection \<open>FacetEvaluator\<close>

text \<open>
  The loop of \<^verbatim>\<open>calculate_weighted_score\<close>, with its two accumulators
  \<^verbatim>\<open>total_weighted_score\<close> and \<^verbatim>\<open>total_weight\<close>.
\<close>

fun weighted_loop ::
  "(string \<rightharpoonup> real) \<Rightarrow> EvaluationResult list \<Rightarrow> real \<times> real \<Rightarrow> real \<times> real" where
  "weighted_loop facet_weights [] acc = acc"
| "weighted_loop facet_weights (result # rest) (total_weighted_score, total_weight) =
     (let weight = get_weight facet_weights (facet result);
          weighted_score = real_of_int (score result) * weight * confidence result
      in weighted_loop facet_weights rest
           (total_weighted_score + weighted_score, total_weight + weight * confidence result))"

definition calculate_weighted_score ::
  "(string \<rightharpoonup> real) \<Rightarrow> EvaluationResult list \<Rightarrow> real" where
  "calculate_weighted_score facet_weights facet_results =
     (if facet_results = [] then 0.0
      else case weighted_loop facet_weights facet_results (0.0, 0.0) of
        (total_weighted_score, total_weight) \<Rightarrow>
          if total_weight > 0 then total_weighted_score / total_weight else 0.0)"

text \<open>The two sums of the specification's formula.\<close>

definition weighted_numerator :: "(string \<rightharpoonup> real) \<Rightarrow> EvaluationResult list \<Rightarrow> real" where
  "weighted_numerator facet_weights J =
     (\<Sum>j\<leftarrow>J. real_of_int (score j) * get_weight facet_weights (facet j) * confidence j)"

definition weighted_denominator :: "(string \<rightharpoonup> real) \<Rightarrow> EvaluationResult list \<Rightarrow> real" where
  "weighted_denominator facet_weights J =
     (\<Sum>j\<leftarrow>J. get_weight facet_weights (facet j) * confidence j)"

text \<open>\<^verbatim>\<open>_get_facet_category\<close>\<close>

definition linguistic_facets :: "string list" where
  "linguistic_facets =
     [''grammar'', ''coherence'', ''fluency'', ''vocabulary_richness'', ''clarity'']"

definition pragmatic_facets :: "string list" where
  "pragmatic_facets =
     [''appropriateness'', ''relevance'', ''politeness'', ''context_understanding'']"

definition safety_facets :: "string list" where
  "safety_facets = [''toxicity'', ''bias'', ''harmful_content'', ''hate_speech'']"

definition emotion_facets :: "string list" where
  "emotion_facets = [''empathy'', ''sentiment'', ''emotional_appropriateness'']"

definition get_facet_category :: "string \<Rightarrow> string" where
  "get_facet_category f =
     (if f \<in> set linguistic_facets then ''linguistic_quality''
      else if f \<in> set pragmatic_facets then ''pragmatics''
      else if f \<in> set safety_facets then ''safety''
      else if f \<in> set emotion_facets then ''emotion''
      else ''other'')"

text \<open>
  The dictionary \<^verbatim>\<open>categories\<close> of \<^verbatim>\<open>analyze_facet_consistency\<close>, in insertion order:
  a score is appended to the list of its category, and a category seen for the first time
  is added at the end.
\<close>

fun append_score :: "string \<Rightarrow> int \<Rightarrow> (string \<times> int list) list \<Rightarrow> (string \<times> int list) list" where
  "append_score category s [] = [(category, [s])]"
| "append_score category s ((k, scores) # rest) =
     (if k = category then (k, scores @ [s]) # rest
      else (k, scores) # append_score category s rest)"

definition group_by_category :: "EvaluationResult list \<Rightarrow> (string \<times> int list) list" where
  "group_by_category facet_results =
     foldl (\<lambda>categories result.
              append_score (get_facet_category (facet result)) (score result) categories)
       [] facet_results"

text \<open>
  The body of the second loop for one category with more than one score:
  mean, population variance, and the normalisation \<^verbatim>\<open>max(0, 1 - variance / 4)\<close>.
\<close>

definition category_consistency :: "int list \<Rightarrow> real" where
  "category_consistency scores =
     (let mean_score = real_of_int (sum_list scores) / real (length scores);
          variance = (\<Sum>s\<leftarrow>scores. (real_of_int s - mean_score) ^ 2) / real (length scores)
      in max 0 (1 - variance / 4))"

definition analyze_facet_consistency :: "EvaluationResult list \<Rightarrow> real" where
  "analyze_facet_consistency facet_results =
     (if length facet_results < 2 then 1.0
      else
        let categories = group_by_category facet_results;
            consistency_scores =
              map (\<lambda>(category, scores). category_consistency scores)
                (filter (\<lambda>(category, scores). length scores > 1) categories)
        in if consistency_scores \<noteq> []
           then sum_list consistency_scores / real (length consistency_scores)
           else 1.0)"

subsection \<open>Confidence metrics\<close>

text \<open>\<^verbatim>\<open>_calculate_score_variance\<close>\<close>

definition calculate_score_variance :: "EvaluationResult list \<Rightarrow> real" where
  "calculate_score_variance facet_results =
     (if length facet_results < 2 then 0.0
      else
        let scores = map score facet_results;
            mean_score = real_of_int (sum_list scores) / real (length scores)
        in (\<Sum>s\<leftarrow>scores. (real_of_int s - mean_score) ^ 2) / real (length scores))"

text \<open>
  \<^verbatim>\<open>_calculate_confidence_metrics\<close>. The only division whose divisor the code does not
  control is the one by the sum of the weights: Python raises \<^verbatim>\<open>ZeroDivisionError\<close> there
  when the sum is zero.
\<close>

definition calculate_confidence_metrics ::
  "(string \<rightharpoonup> real) \<Rightarrow> EvaluationResult list \<Rightarrow> error + ConfidenceMetrics" where
  "calculate_confidence_metrics facet_weights facet_results =
     (if facet_results = [] then
        Inr \<lparr>overall_confidence = 0.0, model_confidence = 0.0,
             consistency_score = 0.0, uncertainty_estimate = 1.0\<rparr>
      else
        let overall = sum_list (map confidence facet_results) / real (length facet_results);
            weighted_confidences =
              map (\<lambda>result. confidence result * get_weight facet_weights (facet result))
                facet_results;
            weight_sum = (\<Sum>r\<leftarrow>facet_results. get_weight facet_weights (facet r))
        in if weight_sum = 0 then Inl ZeroDivisionError
           else
             let model_conf = sum_list weighted_confidences / weight_sum;
                 consistency = analyze_facet_consistency facet_results;
                 score_variance = calculate_score_variance facet_results;
                 uncertainty = min 1.0 (score_variance / 2.0)
             in Inr \<lparr>overall_confidence = overall, model_confidence = model_conf,
                     consistency_score = consistency, uncertainty_estimate = uncertainty\<rparr>)"

subsection \<open>Confidence metrics in binary floating point\<close>

text \<open>
  Where a claim is about the exact value of a float, the arithmetic of Python's \<^verbatim>\<open>float\<close>
  (IEEE 754 binary64) is written out: a float is a real number that rounding leaves
  unchanged, and every operation returns the rounded exact result. \<open>round_binary64\<close>
  rounds to the nearest number with a significand of 53 bits, ties to the even
  significand, and to the fixed spacing of two to the power -1074 below two to the power
  -1022. Overflow to infinity is outside the model.
\<close>

definition round_half_even :: "real \<Rightarrow> int" where
  "round_half_even x =
     (let f = \<lfloor>x\<rfloor>; d = x - of_int f
      in if d < 1 / 2 then f else if 1 / 2 < d then f + 1 else if even f then f else f + 1)"

text \<open>
  The exponent \<open>e\<close> of a positive \<open>x\<close>, for which \<open>x\<close> lies from two to the power \<open>e\<close>
  up to, but not including, two to the power \<open>e + 1\<close>: it is read off the number of
  bits of an integer. \<open>scale2\<close> is the power of two for an integer exponent.
\<close>

fun bit_length :: "nat \<Rightarrow> nat" where
  "bit_length n = (if n = 0 then 0 else Suc (bit_length (n div 2)))"

declare bit_length.simps [simp del]

definition binary_exponent :: "real \<Rightarrow> int" where
  "binary_exponent x =
     (if 1 \<le> x then int (bit_length (nat \<lfloor>x\<rfloor>)) - 1
      else - int (bit_length (nat (\<lceil>1 / x\<rceil> - 1))))"

definition scale2 :: "int \<Rightarrow> real" where
  "scale2 p = (if 0 \<le> p then 2 ^ nat p else 1 / 2 ^ nat (- p))"

definition round_binary64 :: "real \<Rightarrow> real" where
  "round_binary64 x =
     (if x = 0 then 0
      else
        let p = max (binary_exponent \<bar>x\<bar>) (- 1022) - 52
        in of_int (round_half_even (x / scale2 p)) * scale2 p)"


text \<open>
  \<^verbatim>\<open>sum\<close> over floats: the start value \<^verbatim>\<open>0\<close> plus the first element is that element,
  and every further addition is rounded (CPython before 3.12; later versions carry a
  compensation term, and agree on lists of one element).
\<close>

fun rounded_sum :: "(real \<Rightarrow> real) \<Rightarrow> real list \<Rightarrow> real" where
  "rounded_sum rnd [] = 0"
| "rounded_sum rnd (x # xs) = foldl (\<lambda>total y. rnd (total + y)) x xs"

text \<open>
  \<^verbatim>\<open>analyze_facet_consistency\<close>, \<^verbatim>\<open>_calculate_score_variance\<close> and
  \<^verbatim>\<open>_calculate_confidence_metrics\<close> once more, with the result of every float operation
  passed through a rounding function \<open>rnd\<close>; \<^verbatim>\<open>x ** 2\<close> is read as the rounded product
  of \<open>x\<close> with itself. With the identity for \<open>rnd\<close> these are the definitions above.
\<close>

definition category_consistency_rounded :: "(real \<Rightarrow> real) \<Rightarrow> int list \<Rightarrow> real" where
  "category_consistency_rounded rnd scores =
     (let mean_score = rnd (real_of_int (sum_list scores) / real (length scores));
          variance =
            rnd (rounded_sum rnd
                   (map (\<lambda>s. rnd ((rnd (real_of_int s - mean_score)) ^ 2)) scores)
                 / real (length scores))
      in max 0 (rnd (1 - rnd (variance / 4))))"

definition analyze_facet_consistency_rounded ::
  "(real \<Rightarrow> real) \<Rightarrow> EvaluationResult list \<Rightarrow> real" where
  "analyze_facet_consistency_rounded rnd facet_results =
     (if length facet_results < 2 then 1.0
      else
        let categories = group_by_category facet_results;
            consistency_scores =
              map (\<lambda>(category, scores). category_consistency_rounded rnd scores)
                (filter (\<lambda>(category, scores). length scores > 1) categories)
        in if consistency_scores \<noteq> []
           then rnd (rounded_sum rnd consistency_scores / real (length consistency_scores))
           else 1.0)"

definition calculate_score_variance_rounded ::
  "(real \<Rightarrow> real) \<Rightarrow> EvaluationResult list \<Rightarrow> real" where
  "calculate_score_variance_rounded rnd facet_results =
     (if length facet_results < 2 then 0.0
      else
        let scores = map score facet_results;
            mean_score = rnd (real_of_int (sum_list scores) / real (length scores))
        in rnd (rounded_sum rnd
                  (map (\<lambda>s. rnd ((rnd (real_of_int s - mean_score)) ^ 2)) scores)
                / real (length scores)))"

definition calculate_confidence_metrics_rounded ::
  "(real \<Rightarrow> real) \<Rightarrow> (string \<rightharpoonup> real) \<Rightarrow> EvaluationResult list
     \<Rightarrow> error + ConfidenceMetrics" where
  "calculate_confidence_metrics_rounded rnd weights facet_results =
     (if facet_results = [] then
        Inr \<lparr>overall_confidence = 0.0, model_confidence = 0.0,
             consistency_score = 0.0, uncertainty_estimate = 1.0\<rparr>
      else
        let overall =
              rnd (rounded_sum rnd (map confidence facet_results)
                   / real (length facet_results));
            weighted_confidences =
              map (\<lambda>result. rnd (confidence result * get_weight weights (facet result)))
                facet_results;
            weight_sum =
              rounded_sum rnd (map (\<lambda>r. get_weight weights (facet r)) facet_results)
        in if weight_sum = 0 then Inl ZeroDivisionError
           else
             let model_conf = rnd (rounded_sum rnd weighted_confidences / weight_sum);
                 consistency = analyze_facet_consistency_rounded rnd facet_results;
                 score_variance = calculate_score_variance_rounded rnd facet_results;
                 uncertainty = min 1.0 (rnd (score_variance / 2.0))
             in Inr \<lparr>overall_confidence = overall, model_confidence = model_conf,
                     consistency_score = consistency, uncertainty_estimate = uncertainty\<rparr>)"

text \<open>
  A decimal literal of the source denotes the nearest float: the registry with every
  weight rounded, and the confidence calculator in binary64 arithmetic.
\<close>

definition binary64_weights :: "(string \<rightharpoonup> real) \<Rightarrow> (string \<rightharpoonup> real)" where
  "binary64_weights weights = (\<lambda>f. map_option round_binary64 (weights f))"

definition calculate_confidence_metrics_binary64 ::
  "(string \<rightharpoonup> real) \<Rightarrow> EvaluationResult list \<Rightarrow> error + ConfidenceMetrics" where
  "calculate_confidence_metrics_binary64 =
     calculate_confidence_metrics_rounded round_binary64"

subsection \<open>Text cleaning\<close>

text \<open>
  \<^verbatim>\<open>DataProcessor.clean_conversation_text\<close>. A \<open>char\<close> stands for a code point below 256.
  On these, \<open>isspace\<close> is the class of \<^verbatim>\<open>str.strip()\<close> and of \<^verbatim>\<open>\s\<close>, and
  \<open>is_word_char\<close> is the class \<^verbatim>\<open>\w\<close> of Python's \<^verbatim>\<open>re\<close> on \<^verbatim>\<open>str\<close> patterns.
\<close>

definition isspace :: "char \<Rightarrow> bool" where
  "isspace c =
     (let n = (of_char c :: nat)
      in (9 \<le> n \<and> n \<le> 13) \<or> (28 \<le> n \<and> n \<le> 32) \<or> n = 133 \<or> n = 160)"

definition is_word_char :: "char \<Rightarrow> bool" where
  "is_word_char c =
     (let n = (of_char c :: nat)
      in (48 \<le> n \<and> n \<le> 57) \<or> (65 \<le> n \<and> n \<le> 90) \<or> n = 95 \<or> (97 \<le> n \<and> n \<le> 122)
         \<or> n = 170 \<or> n = 178 \<or> n = 179 \<or> n = 181 \<or> n = 185 \<or> n = 186
         \<or> (188 \<le> n \<and> n \<le> 190) \<or> (192 \<le> n \<and> n \<le> 214)
         \<or> (216 \<le> n \<and> n \<le> 246) \<or> (248 \<le> n \<and> n \<le> 255))"

definition strip :: "string \<Rightarrow> string" where
  "strip s = rev (dropWhile isspace (rev (dropWhile isspace s)))"

text \<open>\<^verbatim>\<open>re.sub(r'\s+', ' ', text)\<close>: every maximal run of whitespace becomes one space.\<close>

function collapse_whitespace :: "string \<Rightarrow> string" where
  "collapse_whitespace [] = []"
| "collapse_whitespace (c # cs) =
     (if isspace c then CHR '' '' # collapse_whitespace (dropWhile isspace cs)
      else c # collapse_whitespace cs)"
  by pat_completeness auto
termination
  by (relation "measure length") (auto simp: length_dropWhile_le le_imp_less_Suc)

text \<open>
  \<^verbatim>\<open>str.replace(old, new)\<close>: the non-overlapping occurrences of \<open>old\<close>, from the left.
  The code calls it with non-empty \<open>old\<close> only.
\<close>

function replace_str :: "string \<Rightarrow> string \<Rightarrow> string \<Rightarrow> string" where
  "replace_str old new [] = []"
| "replace_str old new (c # cs) =
     (if old \<noteq> [] \<and> take (length old) (c # cs) = old
      then new @ replace_str old new (drop (length old) (c # cs))
      else c # replace_str old new cs)"
  by pat_completeness auto
termination
  by (relation "measure (\<lambda>(old, new, s). length s)") auto

text \<open>
  The characters that \<^verbatim>\<open>re.sub(r'[^\w\s\.,!?;:\'\"-]', '', text)\<close> keeps.
\<close>

definition kept_char :: "char \<Rightarrow> bool" where
  "kept_char c =
     (is_word_char c \<or> isspace c \<or> c \<in> set ''.,!?;:'' \<or> c = CHR 0x27 \<or> c = CHR 0x22
      \<or> c = CHR ''-'')"

text \<open>
  The two quote-normalising lines, as the source file has them. The first replaces the
  double quote (code point 0x22) by itself, twice. In the second,
  \<^verbatim>\<open>text.replace(''', "'").replace(''', "'")\<close>, the three apostrophes open a
  triple-quoted string that the next three close: it is a single call of \<^verbatim>\<open>replace\<close>,
  whose first argument is the text between them and whose second is one apostrophe
  (code point 0x27).
\<close>

definition quote_pattern :: string where
  "quote_pattern = '', '' @ [CHR 0x22, CHR 0x27, CHR 0x22] @ '').replace(''"

definition clean_conversation_text :: "string \<Rightarrow> string" where
  "clean_conversation_text text0 =
     (let text1 = collapse_whitespace (strip text0);
          text2 = replace_str [CHR 0x22] [CHR 0x22] (replace_str [CHR 0x22] [CHR 0x22] text1);
          text3 = replace_str quote_pattern [CHR 0x27] text2;
          text4 = filter kept_char text3
      in if text4 \<noteq> [] \<and> last text4 \<notin> set ''.!?'' then text4 @ ''.'' else text4)"

subsection \<open>The single-conversation evaluator\<close>

text \<open>
  \<^verbatim>\<open>ConversationTurn\<close> of \<^verbatim>\<open>processor.py\<close>; the engine reads its \<^verbatim>\<open>text\<close> only, and the
  free-form \<^verbatim>\<open>metadata\<close> dictionary is left out.
\<close>

record ConversationTurn =
  "text" :: string
  speaker :: "string option"
  turn_timestamp :: "real option"
  "context" :: "string option"

text \<open>The argument \<^verbatim>\<open>conversation: Union[str, ConversationTurn]\<close>.\<close>

datatype conversation = Raw string | Turn ConversationTurn

text \<open>
  A loaded model, as the engine uses it: its name and its method
  \<^verbatim>\<open>evaluate_conversation(conversation, facets)\<close>, which catches every exception of a
  facet and returns a result for it.
\<close>

record BaseModel =
  model_name :: string
  model_evaluate_conversation :: "string \<Rightarrow> string list \<Rightarrow> EvaluationResult list"

record ConversationEvaluation =
  conversation_id :: string
  conversation_text :: string
  facet_scores :: "(string \<times> EvaluationResult) list"
  confidence_metrics :: ConfidenceMetrics
  processing_time :: real
  model_used :: string
  timestamp :: real

text \<open>The entries of the configuration dictionary that the engine reads.\<close>

record Config =
  default_model :: "string option"
  facet_batch_size :: "int option"
  facet_weights :: "string \<rightharpoonup> real"

text \<open>
  What one call of \<^verbatim>\<open>evaluate_conversation\<close> gets from outside the program: the four
  readings of \<^verbatim>\<open>time.time()\<close>, in the order of the calls, and the outcome of awaiting
  \<^verbatim>\<open>model_manager.load_model_async\<close> for a model name (the loaded model, or the exception
  that loading raised).
\<close>

record World =
  time_start :: real
  time_id :: real
  time_end :: real
  time_stamp :: real
  load_model_async :: "string option \<Rightarrow> error + BaseModel"

text \<open>\<^verbatim>\<open>a or b\<close> on optional strings: \<^verbatim>\<open>None\<close> and the empty string are false.\<close>

definition str_or :: "string option \<Rightarrow> string option \<Rightarrow> string option" where
  "str_or a b = (case a of None \<Rightarrow> b | Some s \<Rightarrow> if s = [] then b else Some s)"

text \<open>\<^verbatim>\<open>str\<close> of an integer, and \<^verbatim>\<open>int\<close> of a float (truncation towards zero).\<close>

definition digit_char :: "nat \<Rightarrow> char" where
  "digit_char d = ''0123456789'' ! d"

function str_nat :: "nat \<Rightarrow> string" where
  "str_nat n = (if n < 10 then [digit_char n] else str_nat (n div 10) @ [digit_char (n mod 10)])"
  by pat_completeness auto
termination
  by (relation "measure id") auto

declare str_nat.simps [simp del]

definition str_int :: "int \<Rightarrow> string" where
  "str_int i = (if i < 0 then CHR ''-'' # str_nat (nat (- i)) else str_nat (nat i))"

definition int_of_float :: "real \<Rightarrow> int" where
  "int_of_float x = (if 0 \<le> x then \<lfloor>x\<rfloor> else \<lceil>x\<rceil>)"

text \<open>\<^verbatim>\<open>d[k] = v\<close> on a dictionary kept in insertion order.\<close>

fun dict_set :: "'k \<Rightarrow> 'v \<Rightarrow> ('k \<times> 'v) list \<Rightarrow> ('k \<times> 'v) list" where
  "dict_set k v [] = [(k, v)]"
| "dict_set k v ((k', v') # rest) =
     (if k' = k then (k', v) # rest else (k', v') # dict_set k v rest)"

text \<open>
  \<^verbatim>\<open>[facets[i:i + batch_size] for i in range(0, len(facets), batch_size)]\<close> for a positive
  step.
\<close>

function chunks :: "nat \<Rightarrow> 'a list \<Rightarrow> 'a list list" where
  "chunks n xs = (if n = 0 \<or> xs = [] then [] else take n xs # chunks n (drop n xs))"
  by pat_completeness auto
termination
  by (relation "measure (\<lambda>(n, xs). length xs)") auto

declare chunks.simps [simp del]

text \<open>
  \<^verbatim>\<open>_evaluate_facets_async\<close>. \<^verbatim>\<open>range\<close> raises \<^verbatim>\<open>ValueError\<close> for a zero step and is
  empty for a negative one.
\<close>

definition evaluate_facets_async ::
  "Config \<Rightarrow> string \<Rightarrow> string list \<Rightarrow> BaseModel \<Rightarrow> error + EvaluationResult list" where
  "evaluate_facets_async config conversation facets model =
     (let batch_size = (case facet_batch_size config of Some b \<Rightarrow> b | None \<Rightarrow> 10)
      in if batch_size = 0 then Inl ValueError
         else
           let facet_batches = (if batch_size < 0 then [] else chunks (nat batch_size) facets)
           in Inr (foldl (\<lambda>all_results batch.
                            all_results @ model_evaluate_conversation model conversation batch)
                     [] facet_batches))"

definition evaluate_conversation ::
  "Config \<Rightarrow> World \<Rightarrow> conversation \<Rightarrow> string list \<Rightarrow> string option \<Rightarrow> string option
     \<Rightarrow> error + ConversationEvaluation" where
  "evaluate_conversation config world conversation facets given_id given_model =
     (let start_time = time_start world;
          conv_turn = (case conversation of
                         Raw s \<Rightarrow> \<lparr>text = s, speaker = None, turn_timestamp = None,
                                    context = None\<rparr>
                       | Turn t \<Rightarrow> t);
          conv_id =
            (case str_or given_id None of
               Some given \<Rightarrow> given
             | None \<Rightarrow> ''conv_'' @ str_int (int_of_float (time_id world)));
          clean_text = clean_conversation_text (text conv_turn)
      in case load_model_async world (str_or given_model (default_model config)) of
           Inl e \<Rightarrow> Inl e
         | Inr model \<Rightarrow>
             (case evaluate_facets_async config clean_text facets model of
                Inl e \<Rightarrow> Inl e
              | Inr facet_results \<Rightarrow>
                  (case calculate_confidence_metrics
                          (load_facet_weights (facet_weights config)) facet_results of
                     Inl e \<Rightarrow> Inl e
                   | Inr metrics \<Rightarrow>
                       Inr \<lparr>conversation_id = conv_id,
                            conversation_text = clean_text,
                            facet_scores =
                              foldl (\<lambda>d result. dict_set (facet result) result d) []
                                facet_results,
                            confidence_metrics = metrics,
                            processing_time = time_end world - start_time,
                            model_used = model_name model,
                            timestamp = time_stamp world\<rparr>)))"



subsection \<open>Batch evaluation\<close>

record FacetStatistics =
  mean_score :: real
  min_score :: int
  max_score :: int
  score_std :: real
  mean_confidence :: real
  evaluation_count :: nat

record BatchEvaluationResult =
  evaluations :: "ConversationEvaluation list"
  total_processing_time :: real
  average_confidence :: real
  facet_statistics :: "(string \<times> FacetStatistics) list"

text \<open>\<^verbatim>\<open>max\<close> and \<^verbatim>\<open>min\<close> of a non-empty list; the code calls them on such lists only.\<close>

definition py_max :: "int list \<Rightarrow> int" where
  "py_max xs = fold max (tl xs) (hd xs)"

definition py_min :: "int list \<Rightarrow> int" where
  "py_min xs = fold min (tl xs) (hd xs)"

text \<open>The results for one facet in the evaluations that contain it.\<close>

definition results_for :: "string \<Rightarrow> ConversationEvaluation list \<Rightarrow> EvaluationResult list" where
  "results_for f evals =
     concat (map (\<lambda>evaluation. case map_of (facet_scores evaluation) f of
                                  Some result \<Rightarrow> [result] | None \<Rightarrow> []) evals)"

definition calculate_facet_statistics ::
  "ConversationEvaluation list \<Rightarrow> string list \<Rightarrow> (string \<times> FacetStatistics) list" where
  "calculate_facet_statistics evals facets =
     foldl (\<lambda>stats f.
        let scores = map score (results_for f evals);
            confidences = map confidence (results_for f evals)
        in if scores \<noteq> [] then
             dict_set f
               \<lparr>mean_score = real_of_int (sum_list scores) / real (length scores),
                min_score = py_min scores,
                max_score = py_max scores,
                score_std =
                  sqrt ((\<Sum>s\<leftarrow>scores.
                           (real_of_int s - real_of_int (sum_list scores) / real (length scores)) ^ 2)
                        / real (length scores)),
                mean_confidence = sum_list confidences / real (length confidences),
                evaluation_count = length scores\<rparr> stats
           else stats)
       [] facets"

text \<open>
  \<^verbatim>\<open>await asyncio.gather(*tasks)\<close> without \<^verbatim>\<open>return_exceptions\<close>: the results in the order of
  the tasks, or the exception of a task that raised. The tasks are read in list order, so
  of several failures the model reports the one of the earliest task.
\<close>

fun gather :: "(error + 'a) list \<Rightarrow> error + 'a list" where
  "gather [] = Inr []"
| "gather (Inl e # rest) = Inl e"
| "gather (Inr v # rest) = (case gather rest of Inl e \<Rightarrow> Inl e | Inr vs \<Rightarrow> Inr (v # vs))"

text \<open>
  What one call of \<^verbatim>\<open>batch_evaluate\<close> gets from outside: its own two clock readings, and
  for the task of index \<open>i\<close> the world of that task's \<^verbatim>\<open>evaluate_conversation\<close>.
\<close>

record BatchWorld =
  batch_time_start :: real
  batch_time_end :: real
  task_world :: "nat \<Rightarrow> World"

definition batch_tasks ::
  "Config \<Rightarrow> BatchWorld \<Rightarrow> conversation list \<Rightarrow> string list \<Rightarrow> string option
     \<Rightarrow> (error + ConversationEvaluation) list" where
  "batch_tasks config bworld conversations facets given_model =
     map (\<lambda>(i, conversation).
            evaluate_conversation config (task_world bworld i) conversation facets
              (Some (''batch_conv_'' @ str_nat i)) given_model)
       (enumerate 0 conversations)"

definition batch_evaluate ::
  "Config \<Rightarrow> BatchWorld \<Rightarrow> conversation list \<Rightarrow> string list \<Rightarrow> string option
     \<Rightarrow> error + BatchEvaluationResult" where
  "batch_evaluate config bworld conversations facets given_model =
     (let start_time = batch_time_start bworld;
          tasks = batch_tasks config bworld conversations facets given_model
      in case gather tasks of
           Inl e \<Rightarrow> Inl e
         | Inr evals \<Rightarrow>
             let total_time = batch_time_end bworld - start_time
             in if length evals = 0 then Inl ZeroDivisionError
                else
                  Inr \<lparr>evaluations = evals,
                       total_processing_time = total_time,
                       average_confidence =
                         (\<Sum>e\<leftarrow>evals. overall_confidence (confidence_metrics e))
                           / real (length evals),
                       facet_statistics = calculate_facet_statistics evals facets\<rparr>)"

subsection \<open>Comparison of models\<close>

record Comparison =
  model_agreements :: "string \<rightharpoonup> real"
  score_differences :: "string \<rightharpoonup> (string \<times> int) list"
  confidence_comparison :: "string \<rightharpoonup> (string \<times> real) list"
  consensus_scores :: "string \<rightharpoonup> real"

text \<open>
  \<^verbatim>\<open>all_facets\<close> is a Python set; the list fixes one order of iteration. Each round of the
  loop writes under its own facet only.
\<close>

definition all_facets :: "(string \<times> ConversationEvaluation) list \<Rightarrow> string list" where
  "all_facets evals = remdups (concat (map (\<lambda>(name, evaluation). map fst (facet_scores evaluation)) evals))"

text \<open>The inner loop: the dictionaries \<^verbatim>\<open>facet_scores\<close> and \<^verbatim>\<open>facet_confidences\<close>.\<close>

definition collect_facet ::
  "(string \<times> ConversationEvaluation) list \<Rightarrow> string
     \<Rightarrow> (string \<times> int) list \<times> (string \<times> real) list" where
  "collect_facet evals f =
     foldl (\<lambda>(scores_by_model, confidences_by_model) (name, evaluation).
              case map_of (facet_scores evaluation) f of
                None \<Rightarrow> (scores_by_model, confidences_by_model)
              | Some result \<Rightarrow>
                  (dict_set name (score result) scores_by_model,
                   dict_set name (confidence result) confidences_by_model))
       ([], []) evals"

text \<open>One round of the loop over \<^verbatim>\<open>all_facets\<close>.\<close>

definition compare_facet ::
  "(string \<times> ConversationEvaluation) list \<Rightarrow> Comparison \<Rightarrow> string \<Rightarrow> Comparison" where
  "compare_facet evals comparison f =
     (case collect_facet evals f of
        (scores_by_model, confidences_by_model) \<Rightarrow>
          if length scores_by_model \<ge> 2 then
            let scores = map snd scores_by_model;
                score_range = py_max scores - py_min scores;
                agreement = max 0 (1 - real_of_int score_range / 4);
                weighted_sum =
                  (\<Sum>(name, s)\<leftarrow>scores_by_model.
                      case map_of confidences_by_model name of
                        Some c \<Rightarrow> real_of_int s * c
                      | None \<Rightarrow> 0);
                weight_sum = sum_list (map snd confidences_by_model);
                consensus =
                  (if weight_sum > 0 then weighted_sum / weight_sum
                   else real_of_int (sum_list scores) / real (length scores))
            in comparison
                 \<lparr>model_agreements := (model_agreements comparison)(f \<mapsto> agreement),
                  score_differences := (score_differences comparison)(f \<mapsto> scores_by_model),
                  confidence_comparison :=
                    (confidence_comparison comparison)(f \<mapsto> confidences_by_model),
                  consensus_scores := (consensus_scores comparison)(f \<mapsto> consensus)\<rparr>
          else comparison)"

text \<open>
  The agreement and the consensus that one round of the loop writes for its facet, in terms
  of the two dictionaries of the inner loop.
\<close>

definition facet_agreement :: "(string \<times> ConversationEvaluation) list \<Rightarrow> string \<Rightarrow> real" where
  "facet_agreement evals g =
     max 0 (1 - real_of_int (py_max (map snd (fst (collect_facet evals g)))
                             - py_min (map snd (fst (collect_facet evals g)))) / 4)"

definition facet_consensus :: "(string \<times> ConversationEvaluation) list \<Rightarrow> string \<Rightarrow> real" where
  "facet_consensus evals g =
     (if sum_list (map snd (snd (collect_facet evals g))) > 0
      then (\<Sum>(name, s)\<leftarrow>fst (collect_facet evals g).
              case map_of (snd (collect_facet evals g)) name of
                Some c \<Rightarrow> real_of_int s * c
              | None \<Rightarrow> 0) / sum_list (map snd (snd (collect_facet evals g)))
      else real_of_int (sum_list (map snd (fst (collect_facet evals g))))
             / real (length (map snd (fst (collect_facet evals g)))))"

text \<open>
  \<^verbatim>\<open>compare_evaluations\<close>. With fewer than two evaluations the code returns a dictionary
  with the single key \<^verbatim>\<open>error\<close>; that is the left summand here.
\<close>

definition compare_evaluations ::
  "(string \<times> ConversationEvaluation) list \<Rightarrow> string + Comparison" where
  "compare_evaluations evals =
     (if length evals < 2 then Inl ''Need at least 2 evaluations to compare''
      else
        Inr (foldl (compare_facet evals)
               \<lparr>model_agreements = Map.empty, score_differences = Map.empty,
                confidence_comparison = Map.empty, consensus_scores = Map.empty\<rparr>
               (all_facets evals)))"

subsection \<open>The specification's wording of the derived scores\<close>

text \<open>
  These definitions follow the specification, not the code; the theorems below compare the
  code with them. Categories form a closed set, a category's scores are the scores of the
  judgments whose facet belongs to it, and variance is population variance.
\<close>

definition all_categories :: "string list" where
  "all_categories = [''linguistic_quality'', ''pragmatics'', ''safety'', ''emotion'', ''other'']"

definition category_scores :: "string \<Rightarrow> EvaluationResult list \<Rightarrow> int list" where
  "category_scores c J = map score (filter (\<lambda>j. get_facet_category (facet j) = c) J)"

definition population_variance :: "int list \<Rightarrow> real" where
  "population_variance xs =
     (\<Sum>x\<leftarrow>xs. (real_of_int x - real_of_int (sum_list xs) / real (length xs)) ^ 2) / real (length xs)"

definition multi_member_categories :: "EvaluationResult list \<Rightarrow> string list" where
  "multi_member_categories J = filter (\<lambda>c. 2 \<le> length (category_scores c J)) all_categories"

definition spec_consistency :: "EvaluationResult list \<Rightarrow> real" where
  "spec_consistency J =
     (let values = map (\<lambda>c. max 0 (1 - population_variance (category_scores c J) / 4))
                     (multi_member_categories J)
      in if values = [] then 1 else sum_list values / real (length values))"

text \<open>
  For the comparison of models: the models that produced a result for a facet, with
  their results, in the order of the evaluations; the agreement and the consensus of the
  specification; and the consensus with the test the code makes (the sum of the
  confidences is positive) in place of the specification's (not every confidence is
  zero).
\<close>

definition judged ::
  "(string \<times> ConversationEvaluation) list \<Rightarrow> string \<Rightarrow> (string \<times> EvaluationResult) list" where
  "judged evals f =
     concat (map (\<lambda>(name, evaluation).
                    case map_of (facet_scores evaluation) f of
                      Some result \<Rightarrow> [(name, result)] | None \<Rightarrow> []) evals)"

definition spec_agreement :: "int list \<Rightarrow> real" where
  "spec_agreement scores = max 0 (1 - real_of_int (Max (set scores) - Min (set scores)) / 4)"

definition weighted_mean :: "EvaluationResult list \<Rightarrow> real" where
  "weighted_mean rs =
     (\<Sum>r\<leftarrow>rs. real_of_int (score r) * confidence r) / (\<Sum>r\<leftarrow>rs. confidence r)"

definition unweighted_mean :: "EvaluationResult list \<Rightarrow> real" where
  "unweighted_mean rs = real_of_int (\<Sum>r\<leftarrow>rs. score r) / real (length rs)"

definition spec_consensus :: "EvaluationResult list \<Rightarrow> real" where
  "spec_consensus rs =
     (if list_all (\<lambda>r. confidence r = 0) rs then unweighted_mean rs else weighted_mean rs)"

definition code_consensus :: "EvaluationResult list \<Rightarrow> real" where
  "code_consensus rs =
     (if (\<Sum>r\<leftarrow>rs. confidence r) > 0 then weighted_mean rs else unweighted_mean rs)"

subsection \<open>Example inputs\<close>

definition a_judgment :: "string \<Rightarrow> int \<Rightarrow> real \<Rightarrow> EvaluationResult" where
  "a_judgment f s c = \<lparr>facet = f, score = s, confidence = c, reasoning = ''''\<rparr>"

definition default_registry :: "string \<rightharpoonup> real" where
  "default_registry = load_facet_weights Map.empty"

definition scenario :: "EvaluationResult list" where
  "scenario = [a_judgment ''grammar'' 5 0.9, a_judgment ''clarity'' 4 0.8,
               a_judgment ''toxicity'' 1 0.95]"

definition agreeing :: "EvaluationResult list" where
  "agreeing = [a_judgment ''grammar'' 4 0.9, a_judgment ''clarity'' 4 0.8,
               a_judgment ''toxicity'' 1 0.95]"

definition identical :: "EvaluationResult list" where
  "identical = [a_judgment ''grammar'' 4 0.9, a_judgment ''clarity'' 4 0.8]"


definition mock_model :: BaseModel where
  "mock_model =
     \<lparr>model_name = ''mock'',
      model_evaluate_conversation = (\<lambda>conversation facets. map (\<lambda>f. a_judgment f 3 0.8) facets)\<rparr>"

definition a_config :: Config where
  "a_config = \<lparr>default_model = Some ''mock'', facet_batch_size = None, facet_weights = Map.empty\<rparr>"

definition world_at :: "real \<Rightarrow> World" where
  "world_at t =
     \<lparr>time_start = t, time_id = t, time_end = t + 1, time_stamp = t + 1,
      load_model_async = (\<lambda>name. Inr mock_model)\<rparr>"

definition failing_world :: World where
  "failing_world =
     \<lparr>time_start = 100, time_id = 100, time_end = 101, time_stamp = 101,
      load_model_async = (\<lambda>name. Inl (ModelLoadError ''unavailable''))\<rparr>"

definition flaky_batch :: BatchWorld where
  "flaky_batch =
     \<lparr>batch_time_start = 100, batch_time_end = 102,
      task_world = (\<lambda>i. if i = 1 then failing_world else world_at 100)\<rparr>"

definition steady_batch :: BatchWorld where
  "steady_batch =
     \<lparr>batch_time_start = 100, batch_time_end = 102, task_world = (\<lambda>i. world_at 100)\<rparr>"

definition an_evaluation :: "string \<Rightarrow> (string \<times> EvaluationResult) list \<Rightarrow> ConversationEvaluation" where
  "an_evaluation name results =
     \<lparr>conversation_id = ''conv_100'', conversation_text = ''Hello.'', facet_scores = results,
      confidence_metrics = \<lparr>overall_confidence = 0, model_confidence = 0,
                             consistency_score = 0, uncertainty_estimate = 1\<rparr>,
      processing_time = 1, model_used = name, timestamp = 101\<rparr>"

definition two_models :: "(string \<times> ConversationEvaluation) list" where
  "two_models =
     [(''model_a'', an_evaluation ''model_a''
         [(''grammar'', a_judgment ''grammar'' 5 0.9),
          (''clarity'', a_judgment ''clarity'' 4 0.8),
          (''toxicity'', a_judgment ''toxicity'' 2 0)]),
      (''model_b'', an_evaluation ''model_b''
         [(''grammar'', a_judgment ''grammar'' 1 0.1),
          (''toxicity'', a_judgment ''toxicity'' 4 0)])]"

section \<open>Properties\<close>

subsection \<open>Values of the examples\<close>

lemma default_registry_values:
  "get_weight default_registry ''grammar'' = 1"
  "get_weight default_registry ''clarity'' = 13 / 10"
  "get_weight default_registry ''toxicity'' = 2"
  by (simp_all add: get_weight_def default_registry_def load_facet_weights_def default_weights_def)

lemma example_categories:
  "get_facet_category ''grammar'' = ''linguistic_quality''"
  "get_facet_category ''clarity'' = ''linguistic_quality''"
  "get_facet_category ''toxicity'' = ''safety''"
  by (simp_all add: get_facet_category_def linguistic_facets_def pragmatic_facets_def
      safety_facets_def emotion_facets_def)

lemma multi_agreeing: "multi_member_categories agreeing = [''linguistic_quality'']"
  by (simp add: multi_member_categories_def all_categories_def category_scores_def
      agreeing_def a_judgment_def example_categories)


subsection \<open>Weighted score\<close>

lemma weighted_loop_sums:
  "weighted_loop w J (a, b) = (a + weighted_numerator w J, b + weighted_denominator w J)"
  by (induction J arbitrary: a b)
     (simp_all add: weighted_numerator_def weighted_denominator_def Let_def algebra_simps)

lemma weighted_denominator_nonneg:
  assumes "\<forall>j\<in>set J. 0 \<le> confidence j \<and> 0 \<le> get_weight w (facet j)"
  shows "0 \<le> weighted_denominator w J"
  unfolding weighted_denominator_def using assms
  by (intro sum_list_nonneg) auto

lemma calculate_weighted_score_exact:
  "calculate_weighted_score w J =
     (if 0 < weighted_denominator w J
      then weighted_numerator w J / weighted_denominator w J else 0)"
  by (cases J)
     (simp_all add: calculate_weighted_score_def weighted_loop_sums
        weighted_denominator_def weighted_numerator_def del: weighted_loop.simps)

text \<open>
  Claim C1. The weighted score is the quotient of the two sums when the denominator is
  positive and exactly 0 otherwise; for judgments with non-negative confidences and
  weights (the data model), it is therefore the quotient of the specification, and 0
  exactly when the denominator is zero, the empty list included.
\<close>

theorem C1_weighted_score:
  "calculate_weighted_score w J =
     (if 0 < weighted_denominator w J
      then weighted_numerator w J / weighted_denominator w J else 0)
   \<and> ((\<forall>j\<in>set J. 0 \<le> confidence j \<and> 0 \<le> get_weight w (facet j)) \<longrightarrow>
        calculate_weighted_score w J =
          (if weighted_denominator w J = 0 then 0
           else weighted_numerator w J / weighted_denominator w J))
   \<and> calculate_weighted_score w [] = 0"
proof (intro conjI impI)
  show "calculate_weighted_score w J =
     (if 0 < weighted_denominator w J
      then weighted_numerator w J / weighted_denominator w J else 0)"
    by (rule calculate_weighted_score_exact)
next
  assume "\<forall>j\<in>set J. 0 \<le> confidence j \<and> 0 \<le> get_weight w (facet j)"
  then have "0 \<le> weighted_denominator w J"
    by (rule weighted_denominator_nonneg)
  then show "calculate_weighted_score w J =
          (if weighted_denominator w J = 0 then 0
           else weighted_numerator w J / weighted_denominator w J)"
    by (simp add: calculate_weighted_score_exact)
next
  show "calculate_weighted_score w [] = 0"
    by (simp add: calculate_weighted_score_def)
qed

theorem C1_weighted_score_witness:
  "list_all (\<lambda>j. 0 \<le> confidence j \<and> 0 \<le> get_weight default_registry (facet j)) scenario
   \<and> calculate_weighted_score default_registry scenario = 11 / 4"
  using C1_weighted_score [of default_registry scenario]
  by (simp add: scenario_def a_judgment_def default_registry_values
      weighted_denominator_def weighted_numerator_def)

subsection \<open>Consistency score\<close>

lemma get_facet_category_closed: "get_facet_category f \<in> set all_categories"
  by (simp add: get_facet_category_def all_categories_def)

lemma distinct_all_categories: "distinct all_categories"
  by (simp add: all_categories_def)

lemma map_fst_append_score:
  "map fst (append_score c s kvs) =
     (if c \<in> set (map fst kvs) then map fst kvs else map fst kvs @ [c])"
  by (induction kvs) force+

lemma map_of_append_score:
  "map_of (append_score c s kvs) =
     (map_of kvs)(c \<mapsto> (case map_of kvs c of None \<Rightarrow> [s] | Some ss \<Rightarrow> ss @ [s]))"
  by (induction kvs) (auto simp: fun_eq_iff)

lemma group_by_category_snoc:
  "group_by_category (J @ [r]) =
     append_score (get_facet_category (facet r)) (score r) (group_by_category J)"
  by (simp add: group_by_category_def)

lemma category_scores_snoc:
  "category_scores c (J @ [r]) =
     (if get_facet_category (facet r) = c then category_scores c J @ [score r]
      else category_scores c J)"
  by (simp add: category_scores_def)

lemma group_by_category_distinct: "distinct (map fst (group_by_category J))"
proof (induction J rule: rev_induct)
  case Nil
  then show ?case by (simp add: group_by_category_def)
next
  case (snoc r J)
  then show ?case
    by (simp add: group_by_category_snoc map_fst_append_score del: set_map)
qed

lemma group_by_category_lookup:
  "map_of (group_by_category J) c =
     (if category_scores c J = [] then None else Some (category_scores c J))"
proof (induction J arbitrary: c rule: rev_induct)
  case Nil
  then show ?case by (simp add: group_by_category_def category_scores_def)
next
  case (snoc r J)
  then show ?case
    by (simp add: group_by_category_snoc map_of_append_score category_scores_snoc)
qed

lemma group_by_category_entry:
  assumes "(c, ss) \<in> set (group_by_category J)"
  shows "ss = category_scores c J \<and> ss \<noteq> []"
proof -
  from assms have "map_of (group_by_category J) c = Some ss"
    by (simp add: group_by_category_distinct)
  then show ?thesis
    by (simp add: group_by_category_lookup split: if_splits)
qed

lemma group_by_category_keys:
  "set (map fst (group_by_category J)) = {c. category_scores c J \<noteq> []}"
proof -
  have "set (map fst (group_by_category J)) = dom (map_of (group_by_category J))"
    by (simp add: dom_map_of_conv_image_fst)
  also have "\<dots> = {c. category_scores c J \<noteq> []}"
    by (auto simp: dom_def group_by_category_lookup)
  finally show ?thesis .
qed


lemma values_over_keys:
  assumes "\<forall>(c, ss)\<in>set kvs. ss = g c"
  shows "map (\<lambda>(c, ss). f ss) (filter (\<lambda>(c, ss). P ss) kvs) =
         map (\<lambda>c. f (g c)) (filter (\<lambda>c. P (g c)) (map fst kvs))"
  using assms by (induction kvs) auto

lemma code_values_over_keys:
  "map (\<lambda>(category, scores). category_consistency scores)
     (filter (\<lambda>(category, scores). length scores > 1) (group_by_category J)) =
   map (\<lambda>c. category_consistency (category_scores c J))
     (filter (\<lambda>c. length (category_scores c J) > 1) (map fst (group_by_category J)))"
  by (rule values_over_keys) (auto dest: group_by_category_entry)

lemma code_keys_multi:
  "set (filter (\<lambda>c. length (category_scores c J) > 1) (map fst (group_by_category J))) =
   set (multi_member_categories J)"
proof -
  have "category_scores c J \<noteq> [] \<Longrightarrow> c \<in> set all_categories" for c
    using get_facet_category_closed by (auto simp: category_scores_def filter_empty_conv)
  then show ?thesis
    unfolding multi_member_categories_def set_filter group_by_category_keys
    by (auto simp: Suc_le_eq)
qed

lemma category_consistency_eq:
  "category_consistency ss = max 0 (1 - population_variance ss / 4)"
  by (simp add: category_consistency_def population_variance_def Let_def)

lemma sum_list_same_set:
  fixes f :: "'a \<Rightarrow> real"
  assumes "distinct xs" "distinct ys" "set xs = set ys"
  shows "sum_list (map f xs) = sum_list (map f ys) \<and> length xs = length ys"
  using assms by (metis distinct_card sum_list_distinct_conv_sum_set)

lemma analyze_refines_spec: "analyze_facet_consistency J = spec_consistency J"
proof -
  let ?keys = "filter (\<lambda>c. length (category_scores c J) > 1) (map fst (group_by_category J))"
  let ?f = "\<lambda>c. max 0 (1 - population_variance (category_scores c J) / 4)"
  have d1: "distinct ?keys"
    using group_by_category_distinct by (rule distinct_filter)
  have d2: "distinct (multi_member_categories J)"
    by (simp add: multi_member_categories_def distinct_all_categories)
  have same: "sum_list (map ?f ?keys) = sum_list (map ?f (multi_member_categories J))
              \<and> length ?keys = length (multi_member_categories J)"
    using d1 d2 code_keys_multi by (rule sum_list_same_set)
  have small: "multi_member_categories J = []" if "length J < 2"
  proof -
    have "length (category_scores c J) < 2" for c
      using that by (simp add: category_scores_def le_less_trans[OF length_filter_le])
    then show ?thesis
      by (simp add: multi_member_categories_def filter_empty_conv not_le)
  qed
  show ?thesis
  proof (cases "length J < 2")
    case True
    then show ?thesis
      by (simp add: analyze_facet_consistency_def spec_consistency_def small)
  next
    case False
    let ?vals = "map (\<lambda>(category, scores). category_consistency scores)
                   (filter (\<lambda>(category, scores). length scores > 1) (group_by_category J))"
    let ?spec = "map ?f (multi_member_categories J)"
    have vals: "?vals = map ?f ?keys"
      unfolding code_values_over_keys by (simp only: category_consistency_eq)
    have sum_eq: "sum_list ?vals = sum_list ?spec"
      unfolding vals using same by blast
    have len_eq: "length ?vals = length ?spec"
      unfolding vals using same by simp
    then have nil_eq: "?vals = [] \<longleftrightarrow> ?spec = []"
      by (metis length_0_conv)
    have "analyze_facet_consistency J =
            (if ?vals \<noteq> [] then sum_list ?vals / real (length ?vals) else 1)"
      using False unfolding analyze_facet_consistency_def Let_def by simp
    also have "\<dots> = (if ?spec = [] then 1 else sum_list ?spec / real (length ?spec))"
      unfolding sum_eq len_eq nil_eq by simp
    also have "\<dots> = spec_consistency J"
      unfolding spec_consistency_def Let_def by simp
    finally show ?thesis .
  qed
qed

lemma population_variance_const:
  assumes "\<forall>a\<in>set xs. \<forall>b\<in>set xs. a = b" "xs \<noteq> []"
  shows "population_variance xs = 0"
proof -
  obtain a where a: "a \<in> set xs" using assms(2) by (cases xs) auto
  with assms(1) have all: "\<forall>x\<in>set xs. x = a" by blast
  then have xs: "xs = replicate (length xs) a"
    by (simp add: replicate_length_same)
  have "sum_list xs = int (length xs) * a"
    by (subst xs) (simp add: sum_list_replicate)
  then have mean: "real_of_int (sum_list xs) / real (length xs) = real_of_int a"
    using assms(2) by simp
  have "(\<Sum>x\<leftarrow>xs. (real_of_int x - real_of_int a) ^ 2) = 0"
    using all by (induction xs) auto
  then show ?thesis
    by (simp add: population_variance_def mean)
qed

lemma spec_consistency_identical:
  assumes "\<forall>c\<in>set (multi_member_categories J).
             \<forall>a\<in>set (category_scores c J). \<forall>b\<in>set (category_scores c J). a = b"
  shows "spec_consistency J = 1"
proof -
  have "max 0 (1 - population_variance (category_scores c J) / 4) = 1"
    if "c \<in> set (multi_member_categories J)" for c
  proof -
    from that have "category_scores c J \<noteq> []"
      by (auto simp: multi_member_categories_def)
    with assms that have "population_variance (category_scores c J) = 0"
      by (intro population_variance_const) auto
    then show ?thesis by simp
  qed
  then have "map (\<lambda>c. max 0 (1 - population_variance (category_scores c J) / 4))
               (multi_member_categories J) = map (\<lambda>c. 1) (multi_member_categories J)"
    by (intro map_cong) auto
  then show ?thesis
    by (simp add: spec_consistency_def Let_def map_replicate_const sum_list_replicate)
qed

text \<open>
  Claim C2. The consistency score of the code is the average, over the categories with at
  least two judgments, of \<open>max 0 (1 - variance / 4)\<close> for the population variance of the
  category's scores (1 when there is no such category); it is exactly 1 for fewer than two
  judgments, and exactly 1 when the scores inside every such category are all equal.
\<close>

theorem C2_consistency:
  "analyze_facet_consistency J = spec_consistency J
   \<and> (length J < 2 \<longrightarrow> analyze_facet_consistency J = 1)
   \<and> ((\<forall>c\<in>set (multi_member_categories J).
         \<forall>a\<in>set (category_scores c J). \<forall>b\<in>set (category_scores c J). a = b)
       \<longrightarrow> analyze_facet_consistency J = 1)"
  by (simp add: analyze_refines_spec spec_consistency_identical)
     (simp add: analyze_refines_spec[symmetric] analyze_facet_consistency_def)

theorem C2_consistency_witness:
  "length [a_judgment ''grammar'' 3 0.5] < 2
   \<and> analyze_facet_consistency [a_judgment ''grammar'' 3 0.5] = 1
   \<and> multi_member_categories agreeing = [''linguistic_quality'']
   \<and> category_scores ''linguistic_quality'' agreeing = [4, 4]
   \<and> analyze_facet_consistency agreeing = 1"
  using C2_consistency [of "[a_judgment ''grammar'' 3 0.5]"] C2_consistency [of agreeing]
  by (simp add: multi_agreeing)
     (simp add: category_scores_def agreeing_def a_judgment_def example_categories)

subsection \<open>The empty judgment list\<close>

text \<open>
  Claim C4. For the empty judgment list the confidence calculator returns, without
  raising, the sentinel metrics (0, 0, 0, 1), whatever the weights.
\<close>

theorem C4_empty_sentinel:
  "calculate_confidence_metrics w [] =
     Inr \<lparr>overall_confidence = 0, model_confidence = 0,
          consistency_score = 0, uncertainty_estimate = 1\<rparr>"
  by (simp add: calculate_confidence_metrics_def)

subsection \<open>Uncertainty estimate\<close>

lemma calculate_score_variance_eq:
  "J \<noteq> [] \<Longrightarrow> calculate_score_variance J = population_variance (map score J)"
  by (cases J; cases "tl J")
     (simp_all add: calculate_score_variance_def population_variance_def Let_def)

lemma population_variance_nonneg: "0 \<le> population_variance xs"
  unfolding population_variance_def
  by (intro divide_nonneg_nonneg sum_list_nonneg) auto

lemma confidence_metrics_nonempty:
  assumes "J \<noteq> []" and "(\<Sum>r\<leftarrow>J. get_weight w (facet r)) \<noteq> 0"
  shows "calculate_confidence_metrics w J =
     Inr \<lparr>overall_confidence = sum_list (map confidence J) / real (length J),
          model_confidence =
            (\<Sum>r\<leftarrow>J. confidence r * get_weight w (facet r)) / (\<Sum>r\<leftarrow>J. get_weight w (facet r)),
          consistency_score = analyze_facet_consistency J,
          uncertainty_estimate = min 1 (calculate_score_variance J / 2)\<rparr>"
  using assms by (simp add: calculate_confidence_metrics_def Let_def)

text \<open>
  The sum of the weights cannot vanish when the weights are positive, as the data model
  requires and as they are in the built-in registry for every facet name.
\<close>

lemma default_registry_positive: "0 < get_weight default_registry f"
  by (simp add: get_weight_def default_registry_def load_facet_weights_def default_weights_def)

lemma positive_weights_sum:
  assumes "J \<noteq> []" and "\<forall>j\<in>set J. 0 < get_weight w (facet j)"
  shows "0 < (\<Sum>r\<leftarrow>J. get_weight w (facet r))"
  using assms
proof (induction J)
  case Nil
  then show ?case by simp
next
  case (Cons a J)
  then show ?case
    by (cases "J = []") (auto intro: add_pos_pos)
qed

lemma default_registry_never_divides_by_zero:
  "J \<noteq> [] \<Longrightarrow> (\<Sum>r\<leftarrow>J. get_weight default_registry (facet r)) \<noteq> 0"
  using positive_weights_sum [of J default_registry] default_registry_positive
  by (simp add: less_imp_neq[THEN not_sym])

text \<open>
  Claim C3. For a non-empty judgment list whose weights do not sum to zero (weights are
  positive in the data model), the confidence calculator returns metrics whose
  uncertainty estimate is the population variance of the raw scores divided by 2 and
  clamped to the interval from 0 to 1; it is 0 when all raw scores are identical.
\<close>

theorem C3_uncertainty:
  assumes "J \<noteq> []" and "(\<Sum>r\<leftarrow>J. get_weight w (facet r)) \<noteq> 0"
  shows "\<exists>m. calculate_confidence_metrics w J = Inr m
           \<and> uncertainty_estimate m = max 0 (min 1 (population_variance (map score J) / 2))
           \<and> ((\<forall>a\<in>set J. \<forall>b\<in>set J. score a = score b) \<longrightarrow> uncertainty_estimate m = 0)"
proof -
  let ?v = "population_variance (map score J)"
  have nonneg: "0 \<le> ?v" by (rule population_variance_nonneg)
  have const: "?v = 0" if same: "\<forall>a\<in>set J. \<forall>b\<in>set J. score a = score b"
  proof (rule population_variance_const)
    show "\<forall>a\<in>set (map score J). \<forall>b\<in>set (map score J). a = b"
      unfolding set_map using same by blast
    show "map score J \<noteq> []" using assms(1) by blast
  qed
  let ?m = "\<lparr>overall_confidence = sum_list (map confidence J) / real (length J),
          model_confidence =
            (\<Sum>r\<leftarrow>J. confidence r * get_weight w (facet r)) / (\<Sum>r\<leftarrow>J. get_weight w (facet r)),
          consistency_score = analyze_facet_consistency J,
          uncertainty_estimate = min 1 (?v / 2)\<rparr>"
  have clamp: "min 1 (?v / 2) = max 0 (min 1 (?v / 2))"
    using nonneg by (simp add: max_def min_def)
  have run: "calculate_confidence_metrics w J = Inr ?m"
    unfolding confidence_metrics_nonempty[OF assms] calculate_score_variance_eq[OF assms(1)] ..
  have val: "uncertainty_estimate ?m = max 0 (min 1 (?v / 2))"
    using clamp by simp
  have zero: "uncertainty_estimate ?m = 0"
    if "\<forall>a\<in>set J. \<forall>b\<in>set J. score a = score b"
  proof -
    from that have "?v = 0" by (rule const)
    then show ?thesis by simp
  qed
  from run val zero show ?thesis by blast
qed

lemma scenario_weights: "(\<Sum>r\<leftarrow>scenario. get_weight default_registry (facet r)) = 43 / 10"
  by (simp add: scenario_def a_judgment_def default_registry_values)

lemma identical_weights: "(\<Sum>r\<leftarrow>identical. get_weight default_registry (facet r)) = 23 / 10"
  by (simp add: identical_def a_judgment_def default_registry_values)

theorem C3_uncertainty_witness:
  "scenario \<noteq> [] \<and> (\<Sum>r\<leftarrow>scenario. get_weight default_registry (facet r)) \<noteq> 0
   \<and> (\<exists>m. calculate_confidence_metrics default_registry scenario = Inr m
          \<and> uncertainty_estimate m = 1)
   \<and> map score identical = [4, 4]
   \<and> (\<exists>m. calculate_confidence_metrics default_registry identical = Inr m
          \<and> uncertainty_estimate m = 0)"
proof -
  have s1: "scenario \<noteq> []" by (simp add: scenario_def)
  have s2: "(\<Sum>r\<leftarrow>scenario. get_weight default_registry (facet r)) \<noteq> 0"
    by (simp add: scenario_weights)
  have v: "population_variance (map score scenario) = 26 / 9"
    by (simp add: population_variance_def scenario_def a_judgment_def power2_eq_square)
  have i1: "identical \<noteq> []" by (simp add: identical_def)
  have i2: "(\<Sum>r\<leftarrow>identical. get_weight default_registry (facet r)) \<noteq> 0"
    by (simp add: identical_weights)
  have i3: "\<forall>a\<in>set identical. \<forall>b\<in>set identical. score a = score b"
    by (simp add: identical_def a_judgment_def)
  from C3_uncertainty [OF s1 s2] v
  have r1: "\<exists>m. calculate_confidence_metrics default_registry scenario = Inr m
          \<and> uncertainty_estimate m = 1"
    by auto
  from C3_uncertainty [OF i1 i2] i3
  have r2: "\<exists>m. calculate_confidence_metrics default_registry identical = Inr m
          \<and> uncertainty_estimate m = 0"
    by blast
  have i4: "map score identical = [4, 4]"
    by (simp add: identical_def a_judgment_def)
  from s1 s2 r1 i4 r2 show ?thesis by blast
qed


subsection \<open>A single judgment\<close>

text \<open>
  Over the real numbers the weight of a single judgment cancels, and the calculator
  returns its confidence twice.
\<close>

lemma single_judgment_over_reals:
  assumes "get_weight w (facet j) \<noteq> 0"
  shows "calculate_confidence_metrics w [j] =
     Inr \<lparr>overall_confidence = confidence j, model_confidence = confidence j,
          consistency_score = 1, uncertainty_estimate = 0\<rparr>"
  using assms
  by (simp add: calculate_confidence_metrics_def Let_def analyze_facet_consistency_def
      calculate_score_variance_def)

lemma foldl_plus_sum_list: "foldl (\<lambda>total y. total + y) (a::real) xs = a + sum_list xs"
  by (induction xs arbitrary: a) simp_all

lemma rounded_sum_id: "rounded_sum (\<lambda>x. x) xs = sum_list xs"
  by (cases xs) (simp_all add: foldl_plus_sum_list)

lemma rounded_with_identity:
  "calculate_confidence_metrics_rounded (\<lambda>x. x) w J = calculate_confidence_metrics w J"
proof -
  have cc: "category_consistency_rounded (\<lambda>x. x) = category_consistency"
    by (simp add: fun_eq_iff category_consistency_rounded_def category_consistency_def
        rounded_sum_id Let_def)
  have an: "analyze_facet_consistency_rounded (\<lambda>x. x) J = analyze_facet_consistency J"
    by (simp add: analyze_facet_consistency_rounded_def analyze_facet_consistency_def cc
        rounded_sum_id Let_def)
  have va: "calculate_score_variance_rounded (\<lambda>x. x) J = calculate_score_variance J"
    by (simp add: calculate_score_variance_rounded_def calculate_score_variance_def
        rounded_sum_id Let_def)
  show ?thesis
    by (simp add: calculate_confidence_metrics_rounded_def calculate_confidence_metrics_def
        an va rounded_sum_id Let_def)
qed

lemma round_three_quarters: "round_binary64 (3 / 4) = 3 / 4"
  by (simp add: round_binary64_def binary_exponent_def bit_length.simps scale2_def
      round_half_even_def Let_def)

lemma round_eight_tenths: "round_binary64 (8 / 10) = 3602879701896397 / 4503599627370496"
  by (simp add: round_binary64_def binary_exponent_def bit_length.simps scale2_def
      round_half_even_def Let_def)

lemma round_product:
  "round_binary64 (3 / 4 * (3602879701896397 / 4503599627370496))
     = 1351079888211149 / 2251799813685248"
  by (simp add: round_binary64_def binary_exponent_def bit_length.simps scale2_def
      round_half_even_def Let_def)

lemma round_quotient:
  "round_binary64 (1351079888211149 / 2251799813685248 / (3602879701896397 / 4503599627370496))
     = 6755399441055745 / 9007199254740992"
  by (simp add: round_binary64_def binary_exponent_def bit_length.simps scale2_def
      round_half_even_def Let_def)


lemma round_binary64_zero: "round_binary64 0 = 0"
  by (simp add: round_binary64_def)

lemma binary64_single:
  assumes "round_binary64 (confidence j) = confidence j"
    and "get_weight w (facet j) \<noteq> 0"
  shows "calculate_confidence_metrics_binary64 w [j] =
     Inr \<lparr>overall_confidence = confidence j,
          model_confidence =
            round_binary64 (round_binary64 (confidence j * get_weight w (facet j))
                            / get_weight w (facet j)),
          consistency_score = 1, uncertainty_estimate = 0\<rparr>"
  using assms
  by (simp add: calculate_confidence_metrics_binary64_def calculate_confidence_metrics_rounded_def
      analyze_facet_consistency_rounded_def calculate_score_variance_rounded_def
      round_binary64_zero Let_def)

lemma binary64_registry_values:
  "get_weight (binary64_weights default_registry) ''vocabulary_richness''
     = 3602879701896397 / 4503599627370496"
  "get_weight (binary64_weights default_registry) ''toxicity'' = 2"
  by (simp_all add: get_weight_def binary64_weights_def default_registry_def
      load_facet_weights_def default_weights_def
      round_binary64_def binary_exponent_def bit_length.simps scale2_def
      round_half_even_def Let_def)

lemma round_three_halves: "round_binary64 (3 / 2) = 3 / 2"
  by (simp add: round_binary64_def binary_exponent_def bit_length.simps scale2_def
      round_half_even_def Let_def)

text \<open>
  In binary64 arithmetic the weight need not cancel. For the confidence 0.75 and the
  facet \<open>vocabulary_richness\<close>, of weight 0.8, the product is rounded up, and the
  quotient is the float above 0.75, printed 0.7500000000000001.
\<close>

theorem C10_counterexample:
  "calculate_confidence_metrics_binary64 (binary64_weights default_registry)
     [a_judgment ''vocabulary_richness'' 3 (3 / 4)] =
     Inr \<lparr>overall_confidence = 3 / 4,
          model_confidence = 6755399441055745 / 9007199254740992,
          consistency_score = 1, uncertainty_estimate = 0\<rparr>
   \<and> (6755399441055745 / 9007199254740992 :: real) \<noteq> 3 / 4"
proof -
  have "calculate_confidence_metrics_binary64 (binary64_weights default_registry)
          [a_judgment ''vocabulary_richness'' 3 (3 / 4)] =
        Inr \<lparr>overall_confidence = 3 / 4,
             model_confidence =
               round_binary64 (round_binary64 (3 / 4 * (3602879701896397 / 4503599627370496))
                               / (3602879701896397 / 4503599627370496)),
             consistency_score = 1, uncertainty_estimate = 0\<rparr>"
    using binary64_single [of "a_judgment ''vocabulary_richness'' 3 (3 / 4)"
        "binary64_weights default_registry"]
    by (simp add: a_judgment_def binary64_registry_values round_three_quarters)
  then show ?thesis
    by (simp only: round_product round_quotient) simp
qed

text \<open>
  Claim C10, as the code has it. For a list of exactly one judgment, whose confidence
  \<open>c\<close> is a float and whose facet has a non-zero weight \<open>w\<close>, the confidence calculator
  returns overall confidence \<open>c\<close>, consistency 1 and uncertainty 0, exactly; the model
  confidence is the rounded quotient of the rounded product \<open>c * w\<close> by \<open>w\<close>. It is \<open>c\<close>
  whenever the product is exact, and the result is never the sentinel of the empty list.
\<close>

theorem C10_amended:
  assumes "round_binary64 (confidence j) = confidence j"
    and "get_weight w (facet j) \<noteq> 0"
  shows "calculate_confidence_metrics_binary64 w [j] =
     Inr \<lparr>overall_confidence = confidence j,
          model_confidence =
            round_binary64 (round_binary64 (confidence j * get_weight w (facet j))
                            / get_weight w (facet j)),
          consistency_score = 1, uncertainty_estimate = 0\<rparr>
   \<and> (round_binary64 (confidence j * get_weight w (facet j))
         = confidence j * get_weight w (facet j) \<longrightarrow>
       calculate_confidence_metrics_binary64 w [j] =
         Inr \<lparr>overall_confidence = confidence j, model_confidence = confidence j,
              consistency_score = 1, uncertainty_estimate = 0\<rparr>)
   \<and> calculate_confidence_metrics_binary64 w [j] \<noteq>
         Inr \<lparr>overall_confidence = 0, model_confidence = 0,
              consistency_score = 0, uncertainty_estimate = 1\<rparr>"
  using assms by (simp add: binary64_single)

theorem C10_amended_witness:
  "round_binary64 (confidence (a_judgment ''toxicity'' 2 (3 / 4)))
     = confidence (a_judgment ''toxicity'' 2 (3 / 4))
   \<and> get_weight (binary64_weights default_registry) (facet (a_judgment ''toxicity'' 2 (3 / 4))) \<noteq> 0
   \<and> round_binary64 (3 / 4 * get_weight (binary64_weights default_registry) ''toxicity'')
       = 3 / 4 * get_weight (binary64_weights default_registry) ''toxicity''
   \<and> calculate_confidence_metrics_binary64 (binary64_weights default_registry)
         [a_judgment ''toxicity'' 2 (3 / 4)] =
       Inr \<lparr>overall_confidence = 3 / 4, model_confidence = 3 / 4,
            consistency_score = 1, uncertainty_estimate = 0\<rparr>"
  using C10_amended [of "a_judgment ''toxicity'' 2 (3 / 4)" "binary64_weights default_registry"]
  by (simp add: a_judgment_def binary64_registry_values round_three_quarters round_three_halves)

subsection \<open>Text cleaning is not idempotent\<close>

lemma isspace_simps:
  "isspace CHR '' ''" "\<not> isspace CHR ''a''" "\<not> isspace CHR ''b''" "\<not> isspace CHR ''@''"
  "\<not> isspace CHR ''.''"
  by (simp_all add: isspace_def)

lemma kept_char_simps:
  "kept_char CHR '' ''" "kept_char CHR ''a''" "kept_char CHR ''b''" "\<not> kept_char CHR ''@''"
  "kept_char CHR ''.''"
  by (simp_all add: kept_char_def is_word_char_def isspace_def)

lemma clean_conversation_text_empty: "clean_conversation_text [] = []"
  by (simp add: clean_conversation_text_def strip_def)

text \<open>
  Claim C8. Cleaning is a total function and maps the empty string to itself, but it is
  not idempotent: whitespace is collapsed before the special characters are removed, so
  removing the \<open>@\<close> of \<open>a @ b\<close> leaves two adjacent spaces, which a second cleaning
  collapses.
\<close>

theorem C8_clean_not_idempotent:
  "clean_conversation_text ''a @ b'' = ''a  b.''
   \<and> clean_conversation_text (clean_conversation_text ''a @ b'') = ''a b.''
   \<and> clean_conversation_text (clean_conversation_text ''a @ b'')
       \<noteq> clean_conversation_text ''a @ b''"
proof -
  have first: "clean_conversation_text ''a @ b'' = ''a  b.''"
    by (simp add: clean_conversation_text_def strip_def isspace_simps kept_char_simps
        quote_pattern_def)
  have second: "clean_conversation_text ''a  b.'' = ''a b.''"
    by (simp add: clean_conversation_text_def strip_def isspace_simps kept_char_simps
        quote_pattern_def)
  show ?thesis
    unfolding first second by simp
qed

subsection \<open>An empty facet list\<close>

lemma clean_hello: "clean_conversation_text ''Hello'' = ''Hello.''"
  by (simp add: clean_conversation_text_def strip_def isspace_def kept_char_def is_word_char_def
      quote_pattern_def)

lemma str_int_100: "str_int 100 = ''100''"
  by (simp add: str_int_def digit_char_def str_nat.simps)

lemma evaluate_facets_async_empty:
  "facet_batch_size config \<noteq> Some 0 \<Longrightarrow> evaluate_facets_async config conversation [] model = Inr []"
  by (auto simp: evaluate_facets_async_def chunks.simps Let_def split: option.splits)

text \<open>
  The engine does not look at the length of \<^verbatim>\<open>facets\<close>: with an empty list and a model
  that loads, \<^verbatim>\<open>evaluate_conversation\<close> returns an ordinary record, with no facet scores
  and the metrics of the empty judgment list. (The request models of the API layer
  require at least one facet; the engine itself has no such check.)
\<close>

theorem C7_counterexample:
  "evaluate_conversation a_config (world_at 100) (Raw ''Hello'') [] None None =
     Inr \<lparr>conversation_id = ''conv_100'', conversation_text = ''Hello.'', facet_scores = [],
          confidence_metrics = \<lparr>overall_confidence = 0, model_confidence = 0,
                consistency_score = 0, uncertainty_estimate = 1\<rparr>,
          processing_time = 1, model_used = ''mock'', timestamp = 101\<rparr>"
  by (simp add: evaluate_conversation_def a_config_def world_at_def mock_model_def str_or_def
      int_of_float_def str_int_100 clean_hello evaluate_facets_async_empty
      calculate_confidence_metrics_def)

text \<open>
  Claim C7, as the code has it. \<^verbatim>\<open>evaluate_conversation\<close> fails with the loader's
  exception whenever the model cannot be acquired, whatever the facets. An empty facet
  list is not an error: with an acquired model and a non-zero facet batch size the result
  is a record with no facet scores, the sentinel metrics (0, 0, 0, 1) and the name of the
  model.
\<close>

theorem C7_amended:
  "(load_model_async world (str_or given_model (default_model config)) = Inl e \<longrightarrow>
      evaluate_conversation config world conversation facets given_id given_model = Inl e)
   \<and> (load_model_async world (str_or given_model (default_model config)) = Inr model
        \<and> facet_batch_size config \<noteq> Some 0 \<longrightarrow>
      (\<exists>ev. evaluate_conversation config world conversation [] given_id given_model = Inr ev
            \<and> facet_scores ev = []
            \<and> confidence_metrics ev =
                \<lparr>overall_confidence = 0, model_confidence = 0,
                 consistency_score = 0, uncertainty_estimate = 1\<rparr>
            \<and> model_used ev = model_name model))"
  by (simp add: evaluate_conversation_def Let_def evaluate_facets_async_empty
      calculate_confidence_metrics_def)

theorem C7_amended_witness:
  "load_model_async failing_world (str_or None (default_model a_config)) = Inl (ModelLoadError ''unavailable'')
   \<and> evaluate_conversation a_config failing_world (Raw ''Hello'') [''grammar''] None None
       = Inl (ModelLoadError ''unavailable'')
   \<and> load_model_async (world_at 100) (str_or None (default_model a_config)) = Inr mock_model
   \<and> facet_batch_size a_config \<noteq> Some 0
   \<and> (\<exists>ev. evaluate_conversation a_config (world_at 100) (Raw ''Hello'') [] None None = Inr ev
            \<and> facet_scores ev = [])"
proof -
  have fails: "load_model_async failing_world (str_or None (default_model a_config))
                 = Inl (ModelLoadError ''unavailable'')"
    by (simp add: failing_world_def)
  have loads: "load_model_async (world_at 100) (str_or None (default_model a_config))
                 = Inr mock_model"
    by (simp add: world_at_def)
  have size: "facet_batch_size a_config \<noteq> Some 0"
    by (simp add: a_config_def)
  from fails loads size
    C7_amended [of failing_world None a_config "ModelLoadError ''unavailable''" "Raw ''Hello''"
      "[''grammar'']" None mock_model]
    C7_amended [of "world_at 100" None a_config ZeroDivisionError "Raw ''Hello''" "[]" None
      mock_model]
  show ?thesis by blast
qed


subsection \<open>Generated conversation identifiers\<close>

lemma evaluate_mock_grammar:
  "evaluate_conversation a_config (world_at t) (Raw s) [''grammar''] given_id None =
     Inr \<lparr>conversation_id =
            (case str_or given_id None of Some given \<Rightarrow> given
             | None \<Rightarrow> ''conv_'' @ str_int (int_of_float t)),
          conversation_text = clean_conversation_text s,
          facet_scores = [(''grammar'', a_judgment ''grammar'' 3 (4 / 5))],
          confidence_metrics = \<lparr>overall_confidence = (4 / 5), model_confidence = (4 / 5),
                consistency_score = 1, uncertainty_estimate = 0\<rparr>,
          processing_time = 1, model_used = ''mock'', timestamp = t + 1\<rparr>"
proof -
  have facets: "evaluate_facets_async a_config c [''grammar''] mock_model =
                  Inr [a_judgment ''grammar'' 3 (4 / 5)]" for c
    by (simp add: evaluate_facets_async_def a_config_def chunks.simps mock_model_def)
  have w: "get_weight (load_facet_weights (facet_weights a_config)) ''grammar'' \<noteq> 0"
    by (simp add: a_config_def get_weight_def load_facet_weights_def default_weights_def)
  have metrics: "calculate_confidence_metrics (load_facet_weights (facet_weights a_config))
                   [a_judgment ''grammar'' 3 (4 / 5)] =
                 Inr \<lparr>overall_confidence = (4 / 5), model_confidence = (4 / 5),
                      consistency_score = 1, uncertainty_estimate = 0\<rparr>"
    using w
    by (simp add: calculate_confidence_metrics_def Let_def analyze_facet_consistency_def
        calculate_score_variance_def a_judgment_def)
  have cfg: "default_model a_config = Some ''mock''"
    by (simp add: a_config_def)
  have name: "model_name mock_model = ''mock''"
    by (simp add: mock_model_def)
  show ?thesis
    unfolding evaluate_conversation_def Let_def
    by (simp add: facets metrics world_at_def cfg name)
       (simp add: world_at_def a_judgment_def split: option.splits)
qed

lemma str_int_epoch: "str_int 1700000000 = ''1700000000''"
  by (simp add: str_int_def digit_char_def str_nat.simps)

text \<open>
  Claim C9. Without a caller-supplied identifier the code derives
  \<^verbatim>\<open>f"conv_{int(time.time())}"\<close>, the clock cut to whole seconds. Two evaluations
  whose clock readings fall into the same second therefore get the same identifier:
  here both succeed and both are called \<open>conv_1700000000\<close>.
\<close>

theorem C9_generated_ids_collide:
  "\<exists>e1 e2.
     evaluate_conversation a_config (world_at (17000000002 / 10)) (Raw ''Hello'')
       [''grammar''] None None = Inr e1
     \<and> evaluate_conversation a_config (world_at (17000000009 / 10)) (Raw ''Bye'')
       [''grammar''] None None = Inr e2
     \<and> conversation_id e1 = ''conv_1700000000''
     \<and> conversation_id e2 = ''conv_1700000000''"
  by (simp add: evaluate_mock_grammar str_or_def int_of_float_def str_int_epoch)

subsection \<open>Failures inside a batch\<close>

lemma gather_all_ok:
  "\<forall>t\<in>set ts. \<not> isl t \<Longrightarrow> gather ts = Inr (map projr ts)"
  by (induction ts rule: gather.induct) auto

lemma gather_some_failed:
  "\<exists>t\<in>set ts. isl t \<Longrightarrow> \<exists>e. gather ts = Inl e \<and> Inl e \<in> set ts"
  by (induction ts rule: gather.induct) (auto split: sum.splits)

lemma length_batch_tasks:
  "length (batch_tasks config bworld conversations facets given_model) = length conversations"
  by (simp add: batch_tasks_def)

lemma evaluate_load_failure:
  "load_model_async world (str_or given_model (default_model config)) = Inl e \<Longrightarrow>
   evaluate_conversation config world conversation facets given_id given_model = Inl e"
  by (simp add: evaluate_conversation_def Let_def)

lemma flaky_tasks:
  "batch_tasks a_config flaky_batch [Raw ''Hello'', Raw ''Bye''] [''grammar''] None =
     [evaluate_conversation a_config (world_at 100) (Raw ''Hello'') [''grammar'']
        (Some ''batch_conv_0'') None,
      Inl (ModelLoadError ''unavailable'')]"
proof -
  have "load_model_async failing_world (str_or None (default_model a_config))
          = Inl (ModelLoadError ''unavailable'')"
    by (simp add: failing_world_def)
  then have "evaluate_conversation a_config failing_world (Raw ''Bye'') [''grammar'']
               (Some ''batch_conv_1'') None = Inl (ModelLoadError ''unavailable'')"
    by (rule evaluate_load_failure)
  then show ?thesis
    by (simp add: batch_tasks_def flaky_batch_def digit_char_def str_nat.simps)
qed

text \<open>
  A batch of two conversations in which the first evaluation succeeds and the model
  cannot be loaded for the second: \<^verbatim>\<open>batch_evaluate\<close> raises that exception and returns
  no batch result at all.
\<close>

theorem C6_counterexample:
  "(\<exists>ev. batch_tasks a_config flaky_batch [Raw ''Hello'', Raw ''Bye''] [''grammar''] None ! 0
           = Inr ev)
   \<and> batch_tasks a_config flaky_batch [Raw ''Hello'', Raw ''Bye''] [''grammar''] None ! 1
       = Inl (ModelLoadError ''unavailable'')
   \<and> batch_evaluate a_config flaky_batch [Raw ''Hello'', Raw ''Bye''] [''grammar''] None
       = Inl (ModelLoadError ''unavailable'')"
  by (simp add: batch_evaluate_def flaky_tasks evaluate_mock_grammar)


text \<open>
  Claim C6, as the code has it. \<^verbatim>\<open>batch_evaluate\<close> fails on the empty conversation list
  (a division by zero in the average), and it fails whenever the evaluation of any single
  conversation fails, with the exception of one of the failed tasks. When the list is
  non-empty and every evaluation succeeds, it returns a batch result whose evaluations
  are the results of the tasks, one for each conversation, in input order.
\<close>

theorem C6_amended:
  "(batch_evaluate config bworld [] facets given_model = Inl ZeroDivisionError)
   \<and> ((\<exists>t\<in>set (batch_tasks config bworld conversations facets given_model). isl t) \<longrightarrow>
        (\<exists>e. batch_evaluate config bworld conversations facets given_model = Inl e
             \<and> Inl e \<in> set (batch_tasks config bworld conversations facets given_model)))
   \<and> (conversations \<noteq> []
        \<and> (\<forall>t\<in>set (batch_tasks config bworld conversations facets given_model). \<not> isl t) \<longrightarrow>
        (\<exists>r. batch_evaluate config bworld conversations facets given_model = Inr r
             \<and> map Inr (evaluations r) = batch_tasks config bworld conversations facets given_model
             \<and> length (evaluations r) = length conversations))"
proof (intro conjI impI)
  show "batch_evaluate config bworld [] facets given_model = Inl ZeroDivisionError"
    by (simp add: batch_evaluate_def batch_tasks_def)
next
  let ?ts = "batch_tasks config bworld conversations facets given_model"
  assume "\<exists>t\<in>set ?ts. isl t"
  then obtain e where "gather ?ts = Inl e" "Inl e \<in> set ?ts"
    using gather_some_failed by blast
  then show "\<exists>e. batch_evaluate config bworld conversations facets given_model = Inl e
               \<and> Inl e \<in> set ?ts"
    by (simp add: batch_evaluate_def Let_def)
next
  let ?ts = "batch_tasks config bworld conversations facets given_model"
  assume a: "conversations \<noteq> [] \<and> (\<forall>t\<in>set ?ts. \<not> isl t)"
  then have g: "gather ?ts = Inr (map projr ?ts)"
    by (simp add: gather_all_ok)
  have tasks_back: "map Inr (map projr ?ts) = ?ts"
    using a by (simp add: map_idI)
  show "\<exists>r. batch_evaluate config bworld conversations facets given_model = Inr r
             \<and> map Inr (evaluations r) = ?ts
             \<and> length (evaluations r) = length conversations"
    using a tasks_back by (simp add: batch_evaluate_def Let_def g length_batch_tasks)
qed

lemma steady_tasks:
  "batch_tasks a_config steady_batch [Raw ''Hello'', Raw ''Bye''] [''grammar''] None =
     [evaluate_conversation a_config (world_at 100) (Raw ''Hello'') [''grammar'']
        (Some ''batch_conv_0'') None,
      evaluate_conversation a_config (world_at 100) (Raw ''Bye'') [''grammar'']
        (Some ''batch_conv_1'') None]"
  by (simp add: batch_tasks_def steady_batch_def digit_char_def str_nat.simps)

theorem C6_amended_witness:
  "isl (batch_tasks a_config flaky_batch [Raw ''Hello'', Raw ''Bye''] [''grammar''] None ! 1)
   \<and> isl (batch_evaluate a_config flaky_batch [Raw ''Hello'', Raw ''Bye''] [''grammar''] None)
   \<and> list_all (\<lambda>t. \<not> isl t)
         (batch_tasks a_config steady_batch [Raw ''Hello'', Raw ''Bye''] [''grammar''] None)
   \<and> (\<exists>r. batch_evaluate a_config steady_batch [Raw ''Hello'', Raw ''Bye''] [''grammar''] None
             = Inr r
          \<and> length (evaluations r) = 2)"
proof -
  let ?convs = "[Raw ''Hello'', Raw ''Bye'']"
  let ?flaky = "batch_tasks a_config flaky_batch ?convs [''grammar''] None"
  let ?steady = "batch_tasks a_config steady_batch ?convs [''grammar''] None"
  have f1: "isl (?flaky ! 1)"
    by (simp add: flaky_tasks)
  then have f2: "\<exists>t\<in>set ?flaky. isl t"
    by (metis length_batch_tasks length_Cons list.size(3) nth_mem lessI One_nat_def)
  have s1: "\<forall>t\<in>set ?steady. \<not> isl t"
    by (simp add: steady_tasks evaluate_mock_grammar)
  have s2: "?convs \<noteq> []" by simp
  from f2 C6_amended [where config = a_config and bworld = flaky_batch and conversations = ?convs
      and facets = "[''grammar'']" and given_model = None]
  have r1: "isl (batch_evaluate a_config flaky_batch ?convs [''grammar''] None)"
    by auto
  from s1 s2 C6_amended [where config = a_config and bworld = steady_batch
      and conversations = ?convs and facets = "[''grammar'']" and given_model = None]
  have r2: "\<exists>r. batch_evaluate a_config steady_batch ?convs [''grammar''] None = Inr r
              \<and> length (evaluations r) = 2"
    by auto
  from s1 have s3: "list_all (\<lambda>t. \<not> isl t) ?steady"
    by (simp add: list_all_iff)
  from f1 r1 s3 r2 show ?thesis by blast
qed

subsection \<open>Comparison of models\<close>

lemma dict_set_fresh: "k \<notin> fst ` set d \<Longrightarrow> dict_set k v d = d @ [(k, v)]"
  by (induction d) force+

lemma judged_snoc:
  "judged (evals @ [(name, evaluation)]) f =
     judged evals f @ (case map_of (facet_scores evaluation) f of
                         Some result \<Rightarrow> [(name, result)] | None \<Rightarrow> [])"
  by (simp add: judged_def)

lemma judged_mem:
  "(name, r) \<in> set (judged evals f) \<longleftrightarrow>
     (\<exists>e. (name, e) \<in> set evals \<and> map_of (facet_scores e) f = Some r)"
  by (induction evals) (auto simp: judged_def split: option.splits)

lemma judged_keys: "fst ` set (judged evals f) \<subseteq> fst ` set evals"
  by (force simp: judged_mem)

lemma judged_distinct: "distinct (map fst evals) \<Longrightarrow> distinct (map fst (judged evals f))"
proof (induction evals)
  case Nil
  then show ?case by (simp add: judged_def)
next
  case (Cons x evals)
  obtain name evaluation where x: "x = (name, evaluation)" by (cases x)
  have j: "judged (x # evals) f =
             (case map_of (facet_scores evaluation) f of
                Some result \<Rightarrow> [(name, result)] | None \<Rightarrow> []) @ judged evals f"
    by (simp add: judged_def x)
  from Cons.prems have "name \<notin> fst ` set evals" by (simp add: x)
  with judged_keys have "name \<notin> fst ` set (judged evals f)" by blast
  with Cons show ?case
    by (simp add: j split: option.splits)
qed

lemma collect_facet_snoc:
  "collect_facet (evals @ [(name, evaluation)]) f =
     (case collect_facet evals f of
        (scores_by_model, confidences_by_model) \<Rightarrow>
          case map_of (facet_scores evaluation) f of
            None \<Rightarrow> (scores_by_model, confidences_by_model)
          | Some result \<Rightarrow>
              (dict_set name (score result) scores_by_model,
               dict_set name (confidence result) confidences_by_model))"
  by (simp add: collect_facet_def split: prod.splits)

lemma collect_facet_judged:
  assumes "distinct (map fst evals)"
  shows "collect_facet evals f =
           (map (\<lambda>(name, r). (name, score r)) (judged evals f),
            map (\<lambda>(name, r). (name, confidence r)) (judged evals f))"
  using assms
proof (induction evals rule: rev_induct)
  case Nil
  then show ?case by (simp add: collect_facet_def judged_def)
next
  case (snoc x evals)
  obtain name evaluation where x: "x = (name, evaluation)" by (cases x)
  from snoc.prems have d: "distinct (map fst evals)" and fresh: "name \<notin> fst ` set evals"
    by (simp_all add: x)
  from fresh judged_keys have fresh': "name \<notin> fst ` set (judged evals f)" by blast
  have f1: "name \<notin> fst ` set (map (\<lambda>(name, r). (name, score r)) (judged evals f))"
    using fresh' by (auto simp: image_iff)
  have f2: "name \<notin> fst ` set (map (\<lambda>(name, r). (name, confidence r)) (judged evals f))"
    using fresh' by (auto simp: image_iff)
  show ?case
    unfolding x collect_facet_snoc snoc.IH[OF d] judged_snoc
    by (simp add: dict_set_fresh[OF f1] dict_set_fresh[OF f2] split: option.splits)
qed

lemma py_max_eq: "xs \<noteq> [] \<Longrightarrow> py_max xs = Max (set xs)"
  by (cases xs) (simp_all add: py_max_def Max.set_eq_fold[symmetric])

lemma py_min_eq: "xs \<noteq> [] \<Longrightarrow> py_min xs = Min (set xs)"
  by (cases xs) (simp_all add: py_min_def Min.set_eq_fold[symmetric])

lemma weighted_sum_judged:
  assumes "distinct (map fst J)"
  shows "(\<Sum>(name, s)\<leftarrow>map (\<lambda>(name, r). (name, score r)) J.
            case map_of (map (\<lambda>(name, r). (name, confidence r)) J) name of
              Some c \<Rightarrow> real_of_int s * c | None \<Rightarrow> 0) =
         (\<Sum>r\<leftarrow>map snd J. real_of_int (score r) * confidence r)"
proof -
  have look: "map_of (map (\<lambda>(name, r). (name, confidence r)) J) name = Some (confidence r)"
    if "(name, r) \<in> set J" for name r
  proof -
    have "distinct (map fst (map (\<lambda>(name, r). (name, confidence r)) J))"
      using assms by (simp add: comp_def case_prod_unfold)
    moreover have "(name, confidence r) \<in> set (map (\<lambda>(name, r). (name, confidence r)) J)"
      using that by force
    ultimately show ?thesis by (rule map_of_is_SomeI)
  qed
  have "map (\<lambda>(name, s). case map_of (map (\<lambda>(name, r). (name, confidence r)) J) name of
              Some c \<Rightarrow> real_of_int s * c | None \<Rightarrow> 0)
          (map (\<lambda>(name, r). (name, score r)) J) =
        map (\<lambda>r. real_of_int (score r) * confidence r) (map snd J)"
    unfolding map_map by (rule map_cong[OF refl]) (auto simp: look)
  then show ?thesis by (rule arg_cong[where f = sum_list])
qed


lemma compare_facet_unfold:
  "compare_facet evals c g =
     (if 2 \<le> length (fst (collect_facet evals g)) then
        c\<lparr>model_agreements := (model_agreements c)(g \<mapsto> facet_agreement evals g),
          score_differences := (score_differences c)(g \<mapsto> fst (collect_facet evals g)),
          confidence_comparison :=
            (confidence_comparison c)(g \<mapsto> snd (collect_facet evals g)),
          consensus_scores := (consensus_scores c)(g \<mapsto> facet_consensus evals g)\<rparr>
      else c)"
  by (simp add: compare_facet_def facet_agreement_def facet_consensus_def Let_def
      split: prod.splits)

lemma foldl_compare:
  assumes step: "\<And>c g. F c g =
     (if P g then
        c\<lparr>model_agreements := (model_agreements c)(g \<mapsto> A g),
          score_differences := (score_differences c)(g \<mapsto> S g),
          confidence_comparison := (confidence_comparison c)(g \<mapsto> C g),
          consensus_scores := (consensus_scores c)(g \<mapsto> K g)\<rparr>
      else c)"
  shows "model_agreements (foldl F c fs) f =
           (if f \<in> set fs \<and> P f then Some (A f) else model_agreements c f)"
    and "score_differences (foldl F c fs) f =
           (if f \<in> set fs \<and> P f then Some (S f) else score_differences c f)"
    and "confidence_comparison (foldl F c fs) f =
           (if f \<in> set fs \<and> P f then Some (C f) else confidence_comparison c f)"
    and "consensus_scores (foldl F c fs) f =
           (if f \<in> set fs \<and> P f then Some (K f) else consensus_scores c f)"
  by (induction fs arbitrary: c; simp add: step)+

lemma judged_in_all_facets:
  assumes "judged evals f \<noteq> []"
  shows "f \<in> set (all_facets evals)"
proof -
  from assms obtain name r where "(name, r) \<in> set (judged evals f)"
    by (cases "judged evals f") auto
  then obtain e where e: "(name, e) \<in> set evals" "map_of (facet_scores e) f = Some r"
    by (auto simp: judged_mem)
  from e(2) have "f \<in> fst ` set (facet_scores e)"
    by (metis map_of_eq_None_iff option.distinct(1))
  with e(1) show ?thesis
    by (force simp: all_facets_def)
qed

lemma code_consensus_spec:
  assumes "list_all (\<lambda>r. 0 \<le> confidence r) rs"
  shows "code_consensus rs = spec_consensus rs"
proof -
  have nonneg: "\<forall>x\<in>set (map confidence rs). 0 \<le> x"
    using assms by (simp add: list_all_iff)
  then have "0 \<le> sum_list (map confidence rs)"
    by (intro sum_list_nonneg) blast
  moreover have "sum_list (map confidence rs) = 0 \<longleftrightarrow> (\<forall>x\<in>set (map confidence rs). x = 0)"
    using nonneg by (intro sum_list_nonneg_eq_0_iff) blast
  ultimately have "sum_list (map confidence rs) > 0 \<longleftrightarrow> \<not> list_all (\<lambda>r. confidence r = 0) rs"
    by (auto simp: list_all_iff less_le)
  then show ?thesis
    by (simp add: code_consensus_def spec_consensus_def)
qed


lemma compare_evaluations_at:
  assumes "2 \<le> length evals"
  shows "\<exists>c. compare_evaluations evals = Inr c
    \<and> (\<forall>f. (2 \<le> length (fst (collect_facet evals f)) \<and> f \<in> set (all_facets evals) \<longrightarrow>
          model_agreements c f = Some (facet_agreement evals f)
          \<and> score_differences c f = Some (fst (collect_facet evals f))
          \<and> confidence_comparison c f = Some (snd (collect_facet evals f))
          \<and> consensus_scores c f = Some (facet_consensus evals f))
       \<and> (\<not> (2 \<le> length (fst (collect_facet evals f)) \<and> f \<in> set (all_facets evals)) \<longrightarrow>
          model_agreements c f = None \<and> score_differences c f = None
          \<and> confidence_comparison c f = None \<and> consensus_scores c f = None))"
proof -
  let ?init = "\<lparr>model_agreements = Map.empty, score_differences = Map.empty,
              confidence_comparison = Map.empty, consensus_scores = Map.empty\<rparr>"
  let ?final = "foldl (compare_facet evals) ?init (all_facets evals)"
  note fc = foldl_compare [where F = "compare_facet evals"
      and P = "\<lambda>g. 2 \<le> length (fst (collect_facet evals g))"
      and A = "facet_agreement evals" and S = "\<lambda>g. fst (collect_facet evals g)"
      and C = "\<lambda>g. snd (collect_facet evals g)" and K = "facet_consensus evals"
      and c = ?init and fs = "all_facets evals", OF compare_facet_unfold]
  have "compare_evaluations evals = Inr ?final"
    using assms by (simp add: compare_evaluations_def)
  moreover have "(2 \<le> length (fst (collect_facet evals f)) \<and> f \<in> set (all_facets evals) \<longrightarrow>
          model_agreements ?final f = Some (facet_agreement evals f)
          \<and> score_differences ?final f = Some (fst (collect_facet evals f))
          \<and> confidence_comparison ?final f = Some (snd (collect_facet evals f))
          \<and> consensus_scores ?final f = Some (facet_consensus evals f))
       \<and> (\<not> (2 \<le> length (fst (collect_facet evals f)) \<and> f \<in> set (all_facets evals)) \<longrightarrow>
          model_agreements ?final f = None \<and> score_differences ?final f = None
          \<and> confidence_comparison ?final f = None \<and> consensus_scores ?final f = None)" for f
    unfolding fc by auto
  ultimately show ?thesis by blast
qed

text \<open>
  Claim C5. Let the evaluations be a dictionary (distinct model names) with at least two
  entries. Then \<^verbatim>\<open>compare_evaluations\<close> returns a comparison in which, for every facet
  judged by at least two models, the agreement is \<open>max 0 (1 - (max - min) / 4)\<close> of the
  models' scores, the score differences are the models' scores, and the consensus is the
  confidence-weighted mean of the scores when the confidences have a positive sum and
  the unweighted mean otherwise; for non-negative confidences that is the weighted
  mean unless every confidence is zero. A facet judged by fewer than two models has no
  entry in the agreement, score-difference and consensus maps.
\<close>

theorem C5_compare:
  assumes "distinct (map fst evals)" and "2 \<le> length evals"
  shows "\<exists>c. compare_evaluations evals = Inr c
    \<and> (\<forall>f. (2 \<le> length (judged evals f) \<longrightarrow>
            model_agreements c f = Some (spec_agreement (map score (map snd (judged evals f))))
          \<and> consensus_scores c f = Some (code_consensus (map snd (judged evals f)))
          \<and> (list_all (\<lambda>r. 0 \<le> confidence r) (map snd (judged evals f)) \<longrightarrow>
               consensus_scores c f = Some (spec_consensus (map snd (judged evals f))))
          \<and> score_differences c f = Some (map (\<lambda>(name, r). (name, score r)) (judged evals f)))
       \<and> (length (judged evals f) < 2 \<longrightarrow>
            model_agreements c f = None \<and> score_differences c f = None
          \<and> consensus_scores c f = None))"
proof -
  from compare_evaluations_at [OF assms(2)] obtain c where
    run: "compare_evaluations evals = Inr c" and
    present: "\<And>f. 2 \<le> length (fst (collect_facet evals f)) \<and> f \<in> set (all_facets evals) \<Longrightarrow>
          model_agreements c f = Some (facet_agreement evals f)
          \<and> score_differences c f = Some (fst (collect_facet evals f))
          \<and> confidence_comparison c f = Some (snd (collect_facet evals f))
          \<and> consensus_scores c f = Some (facet_consensus evals f)" and
    absent: "\<And>f. \<not> (2 \<le> length (fst (collect_facet evals f)) \<and> f \<in> set (all_facets evals)) \<Longrightarrow>
          model_agreements c f = None \<and> score_differences c f = None
          \<and> confidence_comparison c f = None \<and> consensus_scores c f = None"
    by blast
  have per_facet:
    "(2 \<le> length (judged evals f) \<longrightarrow>
            model_agreements c f = Some (spec_agreement (map score (map snd (judged evals f))))
          \<and> consensus_scores c f = Some (code_consensus (map snd (judged evals f)))
          \<and> (list_all (\<lambda>r. 0 \<le> confidence r) (map snd (judged evals f)) \<longrightarrow>
               consensus_scores c f = Some (spec_consensus (map snd (judged evals f))))
          \<and> score_differences c f = Some (map (\<lambda>(name, r). (name, score r)) (judged evals f)))
       \<and> (length (judged evals f) < 2 \<longrightarrow>
            model_agreements c f = None \<and> score_differences c f = None
          \<and> consensus_scores c f = None)" for f
  proof -
    let ?J = "judged evals f"
    have cf: "collect_facet evals f =
               (map (\<lambda>(name, r). (name, score r)) ?J, map (\<lambda>(name, r). (name, confidence r)) ?J)"
      using assms(1) by (rule collect_facet_judged)
    have len: "length (fst (collect_facet evals f)) = length ?J"
      by (simp add: cf)
    have scores: "map snd (fst (collect_facet evals f)) = map score (map snd ?J)"
      by (simp add: cf case_prod_unfold comp_def)
    have confs: "map snd (snd (collect_facet evals f)) = map confidence (map snd ?J)"
      by (simp add: cf case_prod_unfold comp_def)
    have wsum: "(\<Sum>(name, s)\<leftarrow>fst (collect_facet evals f).
                      case map_of (snd (collect_facet evals f)) name of
                        Some c \<Rightarrow> real_of_int s * c
                      | None \<Rightarrow> 0) = (\<Sum>r\<leftarrow>map snd ?J. real_of_int (score r) * confidence r)"
      unfolding cf fst_conv snd_conv
      by (rule weighted_sum_judged) (rule judged_distinct[OF assms(1)])
    show ?thesis
    proof (cases "2 \<le> length ?J")
      case True
      then have ne: "?J \<noteq> []" by auto
      then have mem: "f \<in> set (all_facets evals)" by (rule judged_in_all_facets)
      from ne have ne': "map score (map snd ?J) \<noteq> []" by simp
      from True mem have p: "2 \<le> length (fst (collect_facet evals f)) \<and> f \<in> set (all_facets evals)"
        by (simp add: len)
      have agr: "model_agreements c f = Some (spec_agreement (map score (map snd ?J)))"
        using present[OF p]
        unfolding facet_agreement_def scores py_max_eq[OF ne'] py_min_eq[OF ne']
          spec_agreement_def by blast
      have cons: "consensus_scores c f = Some (code_consensus (map snd ?J))"
        using present[OF p]
        unfolding facet_consensus_def scores confs wsum code_consensus_def weighted_mean_def
          unweighted_mean_def
        by (simp add: comp_def)
      have diff: "score_differences c f = Some (map (\<lambda>(name, r). (name, score r)) ?J)"
        using present[OF p] by (simp add: cf)
      from True agr cons diff code_consensus_spec show ?thesis
        by (simp add: not_less[symmetric])
    next
      case False
      then have "\<not> (2 \<le> length (fst (collect_facet evals f)) \<and> f \<in> set (all_facets evals))"
        by (simp add: len)
      from absent[OF this] False show ?thesis by simp
    qed
  qed
  from run per_facet show ?thesis by blast
qed


lemma judged_two_models:
  "judged two_models ''grammar'' =
     [(''model_a'', a_judgment ''grammar'' 5 (9 / 10)), (''model_b'', a_judgment ''grammar'' 1 (1 / 10))]"
  "judged two_models ''toxicity'' =
     [(''model_a'', a_judgment ''toxicity'' 2 0), (''model_b'', a_judgment ''toxicity'' 4 0)]"
  "judged two_models ''clarity'' = [(''model_a'', a_judgment ''clarity'' 4 (4 / 5))]"
  by (simp_all add: judged_def two_models_def an_evaluation_def)

theorem C5_compare_witness:
  "distinct (map fst two_models) \<and> 2 \<le> length two_models
   \<and> length (judged two_models ''grammar'') = 2
   \<and> list_all (\<lambda>r. 0 \<le> confidence r) (map snd (judged two_models ''grammar''))
   \<and> length (judged two_models ''clarity'') < 2
   \<and> (\<exists>c. compare_evaluations two_models = Inr c
          \<and> model_agreements c ''grammar'' = Some 0
          \<and> consensus_scores c ''grammar'' = Some (23 / 5)
          \<and> consensus_scores c ''toxicity'' = Some 3
          \<and> model_agreements c ''clarity'' = None
          \<and> score_differences c ''clarity'' = None
          \<and> consensus_scores c ''clarity'' = None)"
proof -
  have d: "distinct (map fst two_models)" and l: "2 \<le> length two_models"
    by (simp_all add: two_models_def)
  have g2: "2 \<le> length (judged two_models ''grammar'')"
    and t2: "2 \<le> length (judged two_models ''toxicity'')"
    and c1: "length (judged two_models ''clarity'') < 2"
    by (simp_all add: judged_two_models)
  have gpos: "list_all (\<lambda>r. 0 \<le> confidence r) (map snd (judged two_models ''grammar''))"
    and tpos: "list_all (\<lambda>r. 0 \<le> confidence r) (map snd (judged two_models ''toxicity''))"
    by (simp_all add: judged_two_models a_judgment_def)
  have agr: "spec_agreement (map score (map snd (judged two_models ''grammar''))) = 0"
    by (simp add: judged_two_models a_judgment_def spec_agreement_def)
  have cons: "spec_consensus (map snd (judged two_models ''grammar'')) = 23 / 5"
    by (simp add: judged_two_models a_judgment_def spec_consensus_def weighted_mean_def)
  have cons0: "spec_consensus (map snd (judged two_models ''toxicity'')) = 3"
    by (simp add: judged_two_models a_judgment_def spec_consensus_def unweighted_mean_def)
  from C5_compare [OF d l] obtain c where
    run: "compare_evaluations two_models = Inr c" and
    present: "\<And>f. 2 \<le> length (judged two_models f) \<Longrightarrow>
            model_agreements c f = Some (spec_agreement (map score (map snd (judged two_models f))))
          \<and> (list_all (\<lambda>r. 0 \<le> confidence r) (map snd (judged two_models f)) \<longrightarrow>
               consensus_scores c f = Some (spec_consensus (map snd (judged two_models f))))" and
    absent: "\<And>f. length (judged two_models f) < 2 \<Longrightarrow>
            model_agreements c f = None \<and> score_differences c f = None
          \<and> consensus_scores c f = None"
    by blast
  from present[OF g2] gpos agr cons
  have r1: "model_agreements c ''grammar'' = Some 0 \<and> consensus_scores c ''grammar'' = Some (23 / 5)"
    by simp
  from present[OF t2] tpos cons0
  have r2: "consensus_scores c ''toxicity'' = Some 3"
    by simp
  from g2 have g2': "length (judged two_models ''grammar'') = 2"
    by (simp add: judged_two_models)
  from d l g2' gpos c1 run r1 r2 absent[OF c1] show ?thesis
    by blast
qed

end
